theory Spec2Isabelle
  imports Complex_Main "HOL-Library.Sublist" "HOL-Library.Multiset"
begin

section \<open>JavaScript values used by the two programs\<close>

text \<open>
  Strings are modelled as \<open>string\<close> and restricted to ASCII: \<open>toLowerCase\<close> maps the
  letters \<open>A\<close>..\<open>Z\<close> and leaves every other character alone, and white space is the ASCII
  white space of the language (TAB, LF, VT, FF, CR, SP).  A value that may be \<open>null\<close> or
  \<open>undefined\<close> is an \<open>option\<close>.
\<close>

definition toLowerChar :: "char \<Rightarrow> char" where
  "toLowerChar c =
     (let n = (of_char c :: nat) in if 65 \<le> n \<and> n \<le> 90 then char_of (n + 32) else c)"

definition toLowerCase :: "string \<Rightarrow> string" where
  "toLowerCase s = map toLowerChar s"

fun startsWith :: "string \<Rightarrow> string \<Rightarrow> bool" where
  "startsWith s [] = True"
| "startsWith [] (c # t) = False"
| "startsWith (a # s) (c # t) = (a = c \<and> startsWith s t)"

text \<open>\<open>s.includes(t)\<close>: \<open>t\<close> occurs in \<open>s\<close> at some position.\<close>

fun includesStr :: "string \<Rightarrow> string \<Rightarrow> bool" where
  "includesStr [] t = (t = [])"
| "includesStr (a # s) t = (startsWith (a # s) t \<or> includesStr s t)"

text \<open>Truthiness of a nullable string: \<open>null\<close>, \<open>undefined\<close> and \<open>""\<close> are falsy.\<close>

fun truthy :: "string option \<Rightarrow> bool" where
  "truthy None = False"
| "truthy (Some s) = (s \<noteq> [])"

text \<open>\<open>x || d\<close> for a nullable string \<open>x\<close> and a string \<open>d\<close>.\<close>

fun orElse :: "string option \<Rightarrow> string \<Rightarrow> string" where
  "orElse None d = d"
| "orElse (Some s) d = (if s = [] then d else s)"

text \<open>
  \<open>ToString\<close> of an integral number, as a template literal applies it.  (For magnitudes of
  \<open>10^21\<close> and more JavaScript switches to exponent notation; identifiers and clock values
  stay far below.)
\<close>

definition digitChar :: "nat \<Rightarrow> char" where
  "digitChar d = char_of (48 + d)"

fun natToString :: "nat \<Rightarrow> string" where
  "natToString n = (if n < 10 then [digitChar n] else natToString (n div 10) @ [digitChar (n mod 10)])"

definition intToString :: "int \<Rightarrow> string" where
  "intToString i = (if i < 0 then CHR ''-'' # natToString (nat (- i)) else natToString (nat i))"

subsection \<open>\<open>parseInt\<close> with no radix argument\<close>

definition isWhiteSpace :: "char \<Rightarrow> bool" where
  "isWhiteSpace c = ((of_char c :: nat) \<in> {9, 10, 11, 12, 13, 32})"

text \<open>The value of a character as a digit: \<open>0\<close>..\<open>9\<close>, then the letters in either case.\<close>

definition digitValue :: "char \<Rightarrow> nat option" where
  "digitValue c =
     (let n = (of_char c :: nat) in
      if 48 \<le> n \<and> n \<le> 57 then Some (n - 48)
      else if 97 \<le> n \<and> n \<le> 122 then Some (n - 87)
      else if 65 \<le> n \<and> n \<le> 90 then Some (n - 55)
      else None)"

definition isRadixDigit :: "nat \<Rightarrow> char \<Rightarrow> bool" where
  "isRadixDigit R c = (case digitValue c of None \<Rightarrow> False | Some d \<Rightarrow> d < R)"

definition radixValue :: "nat \<Rightarrow> string \<Rightarrow> nat" where
  "radixValue R z = foldl (\<lambda>acc c. acc * R + (case digitValue c of None \<Rightarrow> 0 | Some d \<Rightarrow> d)) 0 z"

text \<open>The sign step: a leading \<open>-\<close> gives sign \<open>-1\<close>; a leading \<open>+\<close> or \<open>-\<close> is removed.\<close>

fun splitSign :: "string \<Rightarrow> int \<times> string" where
  "splitSign [] = (1, [])"
| "splitSign (c # r) =
     (if c = CHR ''-'' then (- 1, r) else if c = CHR ''+'' then (1, r) else (1, c # r))"

text \<open>The prefix step: a leading \<open>0x\<close> or \<open>0X\<close> is removed and selects radix 16.\<close>

fun splitRadix :: "string \<Rightarrow> nat \<times> string" where
  "splitRadix (a # b # r) =
     (if a = CHR ''0'' \<and> (b = CHR ''x'' \<or> b = CHR ''X'') then (16, r) else (10, a # b # r))"
| "splitRadix s = (10, s)"

text \<open>
  \<open>parseInt(s)\<close>: \<open>None\<close> is \<open>NaN\<close>.  The result is the mathematical integer; JavaScript
  rounds it to a double beyond \<open>2^53\<close>, and \<open>-0\<close> and \<open>+0\<close> are both \<open>0\<close> here (both are
  falsy, which is all the callers look at).
\<close>

definition parseInt :: "string \<Rightarrow> int option" where
  "parseInt input =
     (let (sign, s1) = splitSign (dropWhile isWhiteSpace input);
          (R, s2) = splitRadix s1;
          z = takeWhile (isRadixDigit R) s2
      in if z = [] then None else Some (sign * int (radixValue R z)))"

text \<open>A form field that is absent is \<open>undefined\<close>, which \<open>parseInt\<close> reads as the text
  \<open>undefined\<close>.\<close>

fun parseIntField :: "string option \<Rightarrow> int option" where
  "parseIntField None = parseInt ''undefined''"
| "parseIntField (Some s) = parseInt s"

text \<open>\<open>n || undefined\<close> for a number \<open>n\<close>: \<open>NaN\<close> and \<open>0\<close> are falsy.\<close>

fun orUndefined :: "int option \<Rightarrow> int option" where
  "orUndefined None = None"
| "orUndefined (Some n) = (if n = 0 then None else Some n)"


section \<open>Backend: the listings service (\<open>Backend/index.js\<close>)\<close>

subsection \<open>Uploads\<close>

text \<open>
  A file part of a multipart request as the client sends it: the name of the form field,
  the file name (it may be empty), the declared media type with its letters as sent, the
  number of bytes in the part, and the value \<open>Date.now()\<close> has when the storage names the
  file.  The same record, with the media type in lower case, is the \<open>file\<close> object that
  the middleware hands to \<open>fileFilter\<close> and to the storage.
\<close>

record upload_file =
  fieldname :: string
  originalname :: string
  mimetype :: string
  fileBytes :: nat
  receivedAt :: nat

datatype failure = Error string | MulterError string | TypeError string

text \<open>
  \<open>path.extname\<close> (POSIX): the last part of the path is what follows the last \<open>/\<close> once
  trailing \<open>/\<close> are dropped; the extension runs from the last \<open>.\<close> of that part to its
  end, and is empty when the part has no \<open>.\<close>, when nothing precedes its last \<open>.\<close>, and when
  the part is \<open>..\<close>.  The computation works on the reversed path, as the library scans
  from the right.
\<close>

definition extname :: "string \<Rightarrow> string" where
  "extname p =
     (let rpart = takeWhile (\<lambda>c. c \<noteq> CHR ''/'') (dropWhile (\<lambda>c. c = CHR ''/'') (rev p));
          rext = takeWhile (\<lambda>c. c \<noteq> CHR ''.'') rpart
      in case dropWhile (\<lambda>c. c \<noteq> CHR ''.'') rpart of
           [] \<Rightarrow> []
         | d # pre \<Rightarrow> if pre = [] \<or> rpart = ''..'' then [] else rev (rext @ [d]))"

text \<open>\<open>/jpeg|jpg|png/.test(s)\<close>: the pattern has no anchors, so it looks for an occurrence
  of one of the three words anywhere in \<open>s\<close>.\<close>

definition filetypes_test :: "string \<Rightarrow> bool" where
  "filetypes_test s = (includesStr s ''jpeg'' \<or> includesStr s ''jpg'' \<or> includesStr s ''png'')"

text \<open>\<open>fileFilter\<close>: \<open>Inr True\<close> is \<open>cb(null, true)\<close>, \<open>Inl\<close> is \<open>cb(new Error(...))\<close>.\<close>

definition fileFilter :: "upload_file \<Rightarrow> failure + bool" where
  "fileFilter file =
     (let extname_ok = filetypes_test (toLowerCase (extname (originalname file)));
          mimetype_ok = filetypes_test (mimetype file)
      in if extname_ok \<and> mimetype_ok then Inr True
         else Inl (Error ''Only JPEG/PNG images are allowed''))"

definition fileSize :: nat where
  "fileSize = 5 * 1024 * 1024"

text \<open>The storage's \<open>filename\<close> callback: \<open>`${Date.now()}-${file.originalname}`\<close>.\<close>

definition filename :: "upload_file \<Rightarrow> string" where
  "filename file = natToString (receivedAt file) @ ''-'' @ originalname file"

text \<open>The \<open>file\<close> object built from a part: the parser of the middleware puts the
  declared media type in lower case; the file name is kept.\<close>

definition fileObject :: "upload_file \<Rightarrow> upload_file" where
  "fileObject part = part\<lparr>mimetype := toLowerCase (mimetype part)\<rparr>"

text \<open>
  \<open>upload.array(name, maxCount)\<close> on the file parts of a request, in the order they arrive.
  A part whose file name is empty is passed over: it is neither filtered nor stored nor
  counted.  Of the others, a part under another field name, or one more part than
  \<open>maxCount\<close>, is \<open>LIMIT_UNEXPECTED_FILE\<close>; then \<open>fileFilter\<close> decides on the \<open>file\<close>
  object; then the storage reads the part and a part of more than \<open>limits.fileSize\<close> bytes
  is \<open>LIMIT_FILE_SIZE\<close>.  The first error ends the upload and goes to the error handler;
  otherwise \<open>req.files\<close> holds the stored files, of which the route handler reads the
  \<open>filename\<close>.
\<close>

fun upload_array :: "string \<Rightarrow> nat \<Rightarrow> upload_file list \<Rightarrow> failure + string list" where
  "upload_array name filesLeft [] = Inr []"
| "upload_array name filesLeft (part # rest) =
     (if originalname part = [] then upload_array name filesLeft rest
      else if fieldname part \<noteq> name \<or> filesLeft = 0
        then Inl (MulterError ''LIMIT_UNEXPECTED_FILE'')
      else case fileFilter (fileObject part) of
             Inl err \<Rightarrow> Inl err
           | Inr _ \<Rightarrow>
               if fileSize < fileBytes part then Inl (MulterError ''LIMIT_FILE_SIZE'')
               else (case upload_array name (filesLeft - 1) rest of
                       Inl err \<Rightarrow> Inl err
                     | Inr stored \<Rightarrow> Inr (filename (fileObject part) # stored)))"

subsection \<open>Listings\<close>

record listing =
  id_l :: nat
  title :: "string option"
  type_l :: "string option"
  breed :: "string option"
  age :: "int option"
  weight :: "int option"
  price :: "int option"
  location :: "string option"
  description :: "string option"
  images :: "string list"
  status_l :: string
  listed :: string
  rating :: rat
  forEid :: bool

text \<open>
  A request body: the upload middleware leaves a request that is not multipart alone, so
  that \<open>req.files\<close> is \<open>undefined\<close>; a multipart request carries its text fields
  (\<open>req.body\<close>, a field that was not sent is \<open>undefined\<close>) and its file parts.
\<close>

datatype request_body = NotMultipart | Multipart "string \<rightharpoonup> string" "upload_file list"

text \<open>A POST request, with the value of \<open>new Date().toISOString()\<close> at the time it is
  handled.\<close>

record post_request =
  body :: request_body
  handledAt :: string

datatype response = Ok "listing list" | Created listing | Failed failure

text \<open>The object literal \<open>newListing\<close> of the route handler.\<close>

definition newListing :: "listing list \<Rightarrow> (string \<rightharpoonup> string) \<Rightarrow> string list \<Rightarrow> string \<Rightarrow> listing" where
  "newListing listings form stored now =
     \<lparr> id_l = length listings + 1,
       title = form ''title'',
       type_l = form ''type'',
       breed = form ''breed'',
       age = orUndefined (parseIntField (form ''age'')),
       weight = orUndefined (parseIntField (form ''weight'')),
       price = orUndefined (parseIntField (form ''price'')),
       location = form ''location'',
       description = form ''description'',
       images = map (\<lambda>name. ''/uploads/'' @ name) stored,
       status_l = ''active'',
       listed = now,
       rating = 9 / 2,
       forEid = (form ''forEid'' = Some ''true'') \<rparr>"

text \<open>
  \<open>app.post('/listings', upload.array('images', 5), handler)\<close> on the collection
  \<open>listings\<close>: the new collection and the response.  An error of the middleware skips the
  handler; on a request that is not multipart the handler throws at \<open>req.files.map\<close>.
\<close>

definition post_listings :: "listing list \<Rightarrow> post_request \<Rightarrow> listing list \<times> response" where
  "post_listings listings req =
     (case body req of
        NotMultipart \<Rightarrow> (listings, Failed (TypeError ''req.files is undefined''))
      | Multipart form files \<Rightarrow>
          (case upload_array ''images'' 5 files of
             Inl err \<Rightarrow> (listings, Failed err)
           | Inr stored \<Rightarrow>
               (let l = newListing listings form stored (handledAt req)
                in (listings @ [l], Created l))))"

definition get_listings :: "listing list \<Rightarrow> listing list \<times> response" where
  "get_listings listings = (listings, Ok listings)"

datatype request = GET_listings | POST_listings post_request

fun serve :: "listing list \<Rightarrow> request \<Rightarrow> listing list \<times> response" where
  "serve listings GET_listings = get_listings listings"
| "serve listings (POST_listings req) = post_listings listings req"

text \<open>A process lifetime: the requests are served one after the other, from the empty
  collection; the result is the final collection and the responses in order.\<close>

fun serve_all :: "listing list \<Rightarrow> request list \<Rightarrow> listing list \<times> response list" where
  "serve_all listings [] = (listings, [])"
| "serve_all listings (r # rs) =
     (let (listings', resp) = serve listings r;
          (final, resps) = serve_all listings' rs
      in (final, resp # resps))"

text \<open>The identifiers handed out by the successful POSTs among the responses, in order.\<close>

fun created_ids :: "response list \<Rightarrow> nat list" where
  "created_ids [] = []"
| "created_ids (Created l # rs) = id_l l # created_ids rs"
| "created_ids (_ # rs) = created_ids rs"


section \<open>Frontend: the Payments view\<close>

text \<open>
  Numbers that carry money or time are modelled as \<open>real\<close> (every finite double is one, and
  the sign of a difference of two doubles is the sign of the difference of their values);
  \<open>NaN\<close> is \<open>None\<close>.  Identifiers of buyers are integers.  Three functions of the
  platform are parameters of the model: \<open>getTime\<close> stands for
  \<open>new Date(s).getTime()\<close> (\<open>None\<close> for a text that is no date), \<open>localeCompare\<close> for
  \<open>a.localeCompare(b)\<close>, and \<open>toLocaleDateString\<close> for
  \<open>new Date(s).toLocaleDateString('en-PK')\<close>.
\<close>

record payment_details =
  bankName :: "string option"
  accountNumber :: "string option"
  stripePaymentIntentId :: "string option"

record item =
  item_id :: string
  item_title :: string
  item_price :: real

text \<open>An order as the endpoint \<open>/payment/admin/all\<close> returns it (the fields the view
  reads, with the types the \<open>Payment\<close> interface gives them).\<close>

record raw_order =
  o_id :: string
  o_orderId :: string
  o_buyer :: "string option"
  o_seller :: "string option"
  o_buyerId :: "int option"
  o_total :: real
  o_subtotal :: real
  o_tax :: real
  o_paymentMethod :: string
  o_paymentDetails :: "payment_details option"
  o_status :: string
  o_date :: "string option"
  o_items :: "item list option"

record payment =
  id_p :: string
  orderId :: string
  buyer :: "string option"
  seller :: "string option"
  buyerId :: "int option"
  amount :: real
  total :: real
  subtotal :: real
  tax :: real
  method_p :: string
  paymentMethod :: string
  paymentDetails :: "payment_details option"
  status :: string
  date :: "string option"
  items :: "item list"

datatype direction = Asc | Desc

text \<open>The state of the component, and the notifications it has emitted through
  \<open>toast.error\<close>.\<close>

record view =
  payments :: "payment list"
  searchTerm :: string
  sortColumn :: "string option"
  sortDirection :: direction
  isLoading :: bool
  toasts :: "string list"

definition initialView :: view where
  "initialView =
     \<lparr> payments = [], searchTerm = [], sortColumn = None, sortDirection = Asc,
       isLoading = True, toasts = [] \<rparr>"

subsection \<open>Fetching and transforming\<close>

text \<open>\<open>order.buyerId || 'Unknown'\<close> inside the template literal.\<close>

fun buyerIdText :: "int option \<Rightarrow> string" where
  "buyerIdText None = ''Unknown''"
| "buyerIdText (Some n) = (if n = 0 then ''Unknown'' else intToString n)"

text \<open>The arrow function that \<open>response.data.map\<close> applies to each order.\<close>

definition transformOrder :: "raw_order \<Rightarrow> payment" where
  "transformOrder order =
     \<lparr> id_p = o_id order,
       orderId = o_orderId order,
       buyer = Some (orElse (o_buyer order) (''Buyer ID: '' @ buyerIdText (o_buyerId order))),
       seller = Some (orElse (o_seller order) ''Unknown Seller''),
       buyerId = o_buyerId order,
       amount = o_total order,
       total = o_total order,
       subtotal = o_subtotal order,
       tax = o_tax order,
       method_p = o_paymentMethod order,
       paymentMethod = o_paymentMethod order,
       paymentDetails = o_paymentDetails order,
       status = o_status order,
       date = o_date order,
       items = (case o_items order of None \<Rightarrow> [] | Some xs \<Rightarrow> xs) \<rparr>"

text \<open>
  What \<open>await axios.get(...)\<close> gives: the promise rejects, or it resolves with a body that
  is not an array (then \<open>response.data.map\<close> throws), or with an array whose elements are
  orders or \<open>null\<close> (reading a field of \<open>null\<close> throws).
\<close>

datatype response_data = NotArray | Array "raw_order option list"

datatype fetch_outcome = Rejected failure | Resolved response_data

fun transformedPayments :: "raw_order option list \<Rightarrow> failure + payment list" where
  "transformedPayments [] = Inr []"
| "transformedPayments (None # rest) = Inl (TypeError ''Cannot read properties of null'')"
| "transformedPayments (Some order # rest) =
     (case transformedPayments rest of
        Inl err \<Rightarrow> Inl err
      | Inr ps \<Rightarrow> Inr (transformOrder order # ps))"

text \<open>The \<open>try\<close> block: the state it reaches, and the exception if it throws.\<close>

definition tryBlock :: "view \<Rightarrow> fetch_outcome \<Rightarrow> view \<times> failure option" where
  "tryBlock v outcome =
     (let v1 = v\<lparr>isLoading := True\<rparr> in
      case outcome of
        Rejected err \<Rightarrow> (v1, Some err)
      | Resolved NotArray \<Rightarrow> (v1, Some (TypeError ''response.data.map is not a function''))
      | Resolved (Array orders) \<Rightarrow>
          (case transformedPayments orders of
             Inl err \<Rightarrow> (v1, Some err)
           | Inr ps \<Rightarrow> (v1\<lparr>payments := ps\<rparr>, None)))"

definition catchBlock :: "view \<Rightarrow> failure \<Rightarrow> view" where
  "catchBlock v err = v\<lparr>toasts := toasts v @ [''Failed to load payment data. Please try again.'']\<rparr>"

definition finallyBlock :: "view \<Rightarrow> view" where
  "finallyBlock v = v\<lparr>isLoading := False\<rparr>"

definition fetchPayments :: "view \<Rightarrow> fetch_outcome \<Rightarrow> view" where
  "fetchPayments v outcome =
     (case tryBlock v outcome of
        (v1, None) \<Rightarrow> finallyBlock v1
      | (v1, Some err) \<Rightarrow> finallyBlock (catchBlock v1 err))"

text \<open>Which of its three screens the component returns.\<close>

datatype screen = LoadingSpinner | NoPaymentsFound | PaymentsTable

definition render :: "view \<Rightarrow> screen" where
  "render v =
     (if isLoading v then LoadingSpinner
      else if length (payments v) = 0 then NoPaymentsFound
      else PaymentsTable)"

subsection \<open>Search\<close>

text \<open>\<open>field && field.toLowerCase().includes(searchTerm.toLowerCase())\<close> for a nullable
  field.\<close>

fun nullableIncludes :: "string option \<Rightarrow> string \<Rightarrow> bool" where
  "nullableIncludes None term = False"
| "nullableIncludes (Some s) term = (s \<noteq> [] \<and> includesStr (toLowerCase s) (toLowerCase term))"

definition searchMatches :: "string \<Rightarrow> payment \<Rightarrow> bool" where
  "searchMatches term p =
     (nullableIncludes (buyer p) term \<or>
      nullableIncludes (seller p) term \<or>
      includesStr (toLowerCase (orderId p)) (toLowerCase term) \<or>
      includesStr (toLowerCase (paymentMethod p)) (toLowerCase term))"

definition filteredPayments :: "view \<Rightarrow> payment list" where
  "filteredPayments v = filter (searchMatches (searchTerm v)) (payments v)"

subsection \<open>Sort\<close>

definition handleSort :: "view \<Rightarrow> string \<Rightarrow> view" where
  "handleSort v column =
     (if sortColumn v = Some column
      then v\<lparr>sortDirection := (if sortDirection v = Asc then Desc else Asc)\<rparr>
      else v\<lparr>sortColumn := Some column, sortDirection := Asc\<rparr>)"

text \<open>\<open>d ? new Date(d).getTime() : 0\<close>.\<close>

fun dateTime :: "(string \<Rightarrow> real option) \<Rightarrow> string option \<Rightarrow> real option" where
  "dateTime getTime None = Some 0"
| "dateTime getTime (Some d) = (if d = [] then Some 0 else getTime d)"

text \<open>The comparator handed to \<open>sort\<close>; \<open>None\<close> is \<open>NaN\<close>.\<close>

definition compareFn ::
  "(string \<Rightarrow> real option) \<Rightarrow> (string \<Rightarrow> string \<Rightarrow> real) \<Rightarrow> string option \<Rightarrow> direction \<Rightarrow>
   payment \<Rightarrow> payment \<Rightarrow> real option" where
  "compareFn getTime localeCompare column dir a b =
     (case column of
        None \<Rightarrow> Some 0
      | Some c \<Rightarrow>
          (let direction = (if dir = Asc then 1 else - 1) in
           if c = ''date'' then
             (case (dateTime getTime (date a), dateTime getTime (date b)) of
                (Some ta, Some tb) \<Rightarrow> Some (direction * (ta - tb))
              | _ \<Rightarrow> None)
           else if c = ''amount'' then Some (direction * (amount a - amount b))
           else if c = ''buyer'' then
             Some (direction * localeCompare (orElse (buyer a) []) (orElse (buyer b) []))
           else if c = ''seller'' then
             Some (direction * localeCompare (orElse (seller a) []) (orElse (seller b) []))
           else if c = ''status'' then Some (direction * localeCompare (status a) (status b))
           else Some 0))"

text \<open>
  \<open>Array.prototype.sort\<close> with a comparator.  The language fixes the result when the
  comparator is consistent: the sort is stable, so the result is the sorted arrangement that
  keeps the elements the comparator ties in their order.  That arrangement is computed
  here by insertion: \<open>x\<close> stays before \<open>y\<close> unless the comparator gives a positive number
  (\<open>NaN\<close> counts as \<open>0\<close>).  For a comparator that is not consistent the language leaves
  the order to the engine, and the model is one admissible engine.
\<close>

definition notAfter :: "('a \<Rightarrow> 'a \<Rightarrow> real option) \<Rightarrow> 'a \<Rightarrow> 'a \<Rightarrow> bool" where
  "notAfter cmp x y = (case cmp x y of None \<Rightarrow> True | Some r \<Rightarrow> r \<le> 0)"

fun insertBy :: "('a \<Rightarrow> 'a \<Rightarrow> real option) \<Rightarrow> 'a \<Rightarrow> 'a list \<Rightarrow> 'a list" where
  "insertBy cmp x [] = [x]"
| "insertBy cmp x (y # ys) = (if notAfter cmp x y then x # y # ys else y # insertBy cmp x ys)"

fun sortBy :: "('a \<Rightarrow> 'a \<Rightarrow> real option) \<Rightarrow> 'a list \<Rightarrow> 'a list" where
  "sortBy cmp [] = []"
| "sortBy cmp (x # xs) = insertBy cmp x (sortBy cmp xs)"

definition sortedPayments ::
  "(string \<Rightarrow> real option) \<Rightarrow> (string \<Rightarrow> string \<Rightarrow> real) \<Rightarrow> view \<Rightarrow> payment list" where
  "sortedPayments getTime localeCompare v =
     sortBy (compareFn getTime localeCompare (sortColumn v) (sortDirection v)) (filteredPayments v)"

subsection \<open>Tabs\<close>

definition filterPaymentsByStatus ::
  "(string \<Rightarrow> real option) \<Rightarrow> (string \<Rightarrow> string \<Rightarrow> real) \<Rightarrow> view \<Rightarrow> string \<Rightarrow> payment list" where
  "filterPaymentsByStatus getTime localeCompare v tab =
     (if tab = ''all-payments'' then sortedPayments getTime localeCompare v
      else filter (\<lambda>p. toLowerCase (status p) = toLowerCase tab)
             (sortedPayments getTime localeCompare v))"

text \<open>The four counts in the tab triggers.\<close>

definition allPaymentsCount :: "view \<Rightarrow> nat" where
  "allPaymentsCount v = length (payments v)"

definition completedCount :: "view \<Rightarrow> nat" where
  "completedCount v = length (filter (\<lambda>p. toLowerCase (status p) = ''completed'') (payments v))"

definition pendingCount :: "view \<Rightarrow> nat" where
  "pendingCount v = length (filter (\<lambda>p. toLowerCase (status p) = ''pending'') (payments v))"

definition cancelledCount :: "view \<Rightarrow> nat" where
  "cancelledCount v = length (filter (\<lambda>p. toLowerCase (status p) = ''cancelled'') (payments v))"

subsection \<open>Cells\<close>

fun formatDate :: "(string \<Rightarrow> string) \<Rightarrow> string option \<Rightarrow> string" where
  "formatDate toLocaleDateString None = ''N/A''"
| "formatDate toLocaleDateString (Some d) = (if d = [] then ''N/A'' else toLocaleDateString d)"

text \<open>In the first branch both texts are non-empty, and \<open>orElse\<close> returns them as they
  are.\<close>

fun formatPaymentDetails :: "payment_details option \<Rightarrow> string" where
  "formatPaymentDetails None = ''N/A''"
| "formatPaymentDetails (Some details) =
     (if truthy (bankName details) \<and> truthy (accountNumber details)
      then orElse (bankName details) [] @ '' - '' @ orElse (accountNumber details) []
      else if truthy (stripePaymentIntentId details) then ''Stripe Payment''
      else ''N/A'')"


section \<open>Sample requests and records\<close>

definition zeroForm :: "string \<rightharpoonup> string" where
  "zeroForm = [''age'' \<mapsto> ''0'', ''weight'' \<mapsto> ''0'', ''price'' \<mapsto> ''0'']"

definition zeroRequest :: post_request where
  "zeroRequest = \<lparr> body = Multipart zeroForm [], handledAt = ''2024-01-01T00:00:00.000Z'' \<rparr>"

definition goatUpload :: upload_file where
  "goatUpload =
     \<lparr> fieldname = ''images'', originalname = ''goat.JPG'', mimetype = ''image/jpeg'',
       fileBytes = 204800, receivedAt = 1704067200000 \<rparr>"

definition gifUpload :: upload_file where
  "gifUpload =
     \<lparr> fieldname = ''images'', originalname = ''goat.gif'', mimetype = ''image/gif'',
       fileBytes = 204800, receivedAt = 1704067200000 \<rparr>"

definition hugeUpload :: upload_file where
  "hugeUpload =
     \<lparr> fieldname = ''images'', originalname = ''herd.png'', mimetype = ''image/png'',
       fileBytes = 5242881, receivedAt = 1704067200000 \<rparr>"

text \<open>A part that is no image by its name (\<open>.pngx\<close>) nor by its declared media type,
  though both contain the letters \<open>png\<close>.\<close>

definition pngxUpload :: upload_file where
  "pngxUpload =
     \<lparr> fieldname = ''images'', originalname = ''archive.pngx'', mimetype = ''image/x-png-thing'',
       fileBytes = 2048, receivedAt = 1704067200000 \<rparr>"

text \<open>A PNG whose media type is declared in upper case, and a GIF sent without a file
  name.\<close>

definition upperUpload :: upload_file where
  "upperUpload =
     \<lparr> fieldname = ''images'', originalname = ''kid.png'', mimetype = ''IMAGE/PNG'',
       fileBytes = 2048, receivedAt = 1704067200000 \<rparr>"

definition namelessUpload :: upload_file where
  "namelessUpload =
     \<lparr> fieldname = ''images'', originalname = [], mimetype = ''image/gif'',
       fileBytes = 2048, receivedAt = 1704067200000 \<rparr>"

definition goatForm :: "string \<rightharpoonup> string" where
  "goatForm = [''title'' \<mapsto> ''Goat'', ''age'' \<mapsto> ''2'', ''price'' \<mapsto> ''45000'', ''forEid'' \<mapsto> ''true'']"

definition goatRequest :: post_request where
  "goatRequest = \<lparr> body = Multipart goatForm [goatUpload], handledAt = ''2024-01-01T00:00:00.000Z'' \<rparr>"

definition gifRequest :: post_request where
  "gifRequest = \<lparr> body = Multipart goatForm [goatUpload, gifUpload], handledAt = ''2024-01-01T00:00:01.000Z'' \<rparr>"

definition pngxRequest :: post_request where
  "pngxRequest = \<lparr> body = Multipart goatForm [pngxUpload], handledAt = ''2024-01-01T00:00:03.000Z'' \<rparr>"

definition hugeRequest :: post_request where
  "hugeRequest = \<lparr> body = Multipart goatForm [hugeUpload], handledAt = ''2024-01-01T00:00:02.000Z'' \<rparr>"

definition orderA :: raw_order where
  "orderA =
     \<lparr> o_id = ''1'', o_orderId = ''ORD-A1'', o_buyer = Some ''Alice'', o_seller = Some ''Farm One'',
       o_buyerId = Some 7, o_total = 100, o_subtotal = 90, o_tax = 5, o_paymentMethod = ''bank'',
       o_paymentDetails =
         Some \<lparr> bankName = Some ''HBL'', accountNumber = Some ''0012'', stripePaymentIntentId = None \<rparr>,
       o_status = ''pending'', o_date = Some ''2024-03-01T00:00:00.000Z'', o_items = None \<rparr>"

definition orderB :: raw_order where
  "orderB =
     \<lparr> o_id = ''2'', o_orderId = ''ORD-B2'', o_buyer = None, o_seller = None,
       o_buyerId = Some 42, o_total = 50, o_subtotal = 50, o_tax = 0, o_paymentMethod = ''stripe'',
       o_paymentDetails =
         Some \<lparr> bankName = None, accountNumber = None, stripePaymentIntentId = Some ''pi_123'' \<rparr>,
       o_status = ''Completed'', o_date = Some ''2024-01-01T00:00:00.000Z'', o_items = Some [] \<rparr>"

definition orderC :: raw_order where
  "orderC =
     \<lparr> o_id = ''3'', o_orderId = ''ORD-C3'', o_buyer = None, o_seller = Some ''Farm Two'',
       o_buyerId = None, o_total = 75, o_subtotal = 70, o_tax = 5, o_paymentMethod = ''cash'',
       o_paymentDetails = None,
       o_status = ''cancelled'', o_date = None, o_items = None \<rparr>"

definition paymentA :: payment where
  "paymentA =
     \<lparr> id_p = ''1'', orderId = ''ORD-A1'', buyer = Some ''Alice'', seller = Some ''Farm One'',
       buyerId = Some 7, amount = 100, total = 100, subtotal = 90, tax = 5, method_p = ''bank'',
       paymentMethod = ''bank'',
       paymentDetails =
         Some \<lparr> bankName = Some ''HBL'', accountNumber = Some ''0012'', stripePaymentIntentId = None \<rparr>,
       status = ''pending'', date = Some ''2024-03-01T00:00:00.000Z'', items = [] \<rparr>"

definition paymentB :: payment where
  "paymentB =
     \<lparr> id_p = ''2'', orderId = ''ORD-B2'', buyer = Some ''Buyer ID: 42'', seller = Some ''Unknown Seller'',
       buyerId = Some 42, amount = 50, total = 50, subtotal = 50, tax = 0, method_p = ''stripe'',
       paymentMethod = ''stripe'',
       paymentDetails =
         Some \<lparr> bankName = None, accountNumber = None, stripePaymentIntentId = Some ''pi_123'' \<rparr>,
       status = ''Completed'', date = Some ''2024-01-01T00:00:00.000Z'', items = [] \<rparr>"

text \<open>A view that has loaded the two payments, before any click.\<close>

definition loadedView :: view where
  "loadedView =
     \<lparr> payments = [paymentA, paymentB], searchTerm = [], sortColumn = None, sortDirection = Asc,
       isLoading = False, toasts = [] \<rparr>"

text \<open>A payment whose date is a text that is no date, and a view that has loaded it between
  the other two.\<close>

definition paymentG :: payment where
  "paymentG =
     \<lparr> id_p = ''3'', orderId = ''ORD-G3'', buyer = Some ''Gul'', seller = Some ''Farm One'',
       buyerId = Some 9, amount = 75, total = 75, subtotal = 70, tax = 5, method_p = ''cash'',
       paymentMethod = ''cash'', paymentDetails = None,
       status = ''pending'', date = Some ''garbage'', items = [] \<rparr>"

definition garbageView :: view where
  "garbageView =
     \<lparr> payments = [paymentA, paymentG, paymentB], searchTerm = [], sortColumn = None,
       sortDirection = Asc, isLoading = False, toasts = [] \<rparr>"

text \<open>Details that carry a bank name and a payment-intent identifier, and no account
  number.\<close>

definition bankAndIntent :: payment_details where
  "bankAndIntent =
     \<lparr> bankName = Some ''HBL'', accountNumber = None, stripePaymentIntentId = Some ''pi_123'' \<rparr>"

text \<open>The clock values of the two dates that occur in the sample orders.\<close>

definition sampleGetTime :: "string \<Rightarrow> real option" where
  "sampleGetTime s =
     (if s = ''2024-01-01T00:00:00.000Z'' then Some 1704067200000
      else if s = ''2024-03-01T00:00:00.000Z'' then Some 1709251200000
      else None)"

text \<open>A comparison of strings by code units, as a stand-in for \<open>localeCompare\<close> on the
  sample records.\<close>

fun codeUnitCompare :: "string \<Rightarrow> string \<Rightarrow> real" where
  "codeUnitCompare [] [] = 0"
| "codeUnitCompare [] (b # t) = - 1"
| "codeUnitCompare (a # s) [] = 1"
| "codeUnitCompare (a # s) (b # t) =
     (if (of_char a :: nat) < of_char b then - 1
      else if (of_char b :: nat) < of_char a then 1
      else codeUnitCompare s t)"

text \<open>The \<open>en-PK\<close> rendering of the two dates that occur in the sample orders, as a
  stand-in for the date formatter.\<close>

definition sampleDateString :: "string \<Rightarrow> string" where
  "sampleDateString s =
     (if s = ''2024-03-01T00:00:00.000Z'' then ''01/03/2024''
      else if s = ''2024-01-01T00:00:00.000Z'' then ''01/01/2024''
      else ''Invalid Date'')"

section \<open>Notions of the specification\<close>

text \<open>\<open>term\<close> is a case-insensitive substring of \<open>field\<close>.\<close>

definition caseInsensitiveSubstring :: "string \<Rightarrow> string \<Rightarrow> bool" where
  "caseInsensitiveSubstring term field = sublist (toLowerCase term) (toLowerCase field)"

text \<open>A comparator value \<open>r\<close> for the pair \<open>(a, b)\<close> lets \<open>a\<close> stand before \<open>b\<close> in the
  given direction.\<close>

definition inDirection :: "direction \<Rightarrow> real \<Rightarrow> bool" where
  "inDirection dir r = (if dir = Asc then r \<le> 0 else 0 \<le> r)"

text \<open>What the language asks of a comparison of strings for \<open>sort\<close> to have a defined
  result: swapping the arguments swaps the sign, and \<open>\<le> 0\<close> is transitive.\<close>

definition consistentComparator :: "(string \<Rightarrow> string \<Rightarrow> real) \<Rightarrow> bool" where
  "consistentComparator lc =
     ((\<forall>x y. (lc x y < 0) = (0 < lc y x)) \<and>
      (\<forall>x y z. lc x y \<le> 0 \<and> lc y z \<le> 0 \<longrightarrow> lc x z \<le> 0))"

section \<open>Properties of the string functions\<close>

lemma startsWith_iff: "startsWith s t \<longleftrightarrow> (\<exists>ss. s = t @ ss)"
  by (induction s t rule: startsWith.induct) auto

lemma includesStr_iff_sublist: "includesStr s t \<longleftrightarrow> sublist t s"
proof (induction s)
  case Nil
  show ?case by simp
next
  case (Cons a s)
  have "startsWith (a # s) t \<longleftrightarrow> prefix t (a # s)"
    by (simp add: startsWith_iff prefix_def)
  with Cons show ?case by (simp add: sublist_Cons_right)
qed

lemma includesStr_empty: "includesStr s []"
  by (simp add: includesStr_iff_sublist)

section \<open>Properties of the listings service\<close>

lemma parseInt_zero: "parseInt ''0'' = Some 0"
  by (simp add: parseInt_def isWhiteSpace_def isRadixDigit_def digitValue_def radixValue_def)

lemma orUndefined_None_iff: "orUndefined r = None \<longleftrightarrow> r = None \<or> r = Some 0"
  by (cases r) auto

text \<open>What the handler stores for a numeric field: nothing when the field is absent, when
  \<open>parseInt\<close> finds no digits, and also when the parsed number is \<open>0\<close>.\<close>

lemma numeric_field_unset_iff:
  "age (newListing listings form stored now) = None \<longleftrightarrow>
     parseIntField (form ''age'') = None \<or> parseIntField (form ''age'') = Some 0"
  "weight (newListing listings form stored now) = None \<longleftrightarrow>
     parseIntField (form ''weight'') = None \<or> parseIntField (form ''weight'') = Some 0"
  "price (newListing listings form stored now) = None \<longleftrightarrow>
     parseIntField (form ''price'') = None \<or> parseIntField (form ''price'') = Some 0"
  by (simp_all add: newListing_def orUndefined_None_iff)

lemma numeric_field_kept:
  "parseIntField (form ''age'') = Some n \<Longrightarrow> n \<noteq> 0 \<Longrightarrow>
     age (newListing listings form stored now) = Some n"
  "parseIntField (form ''weight'') = Some n \<Longrightarrow> n \<noteq> 0 \<Longrightarrow>
     weight (newListing listings form stored now) = Some n"
  "parseIntField (form ''price'') = Some n \<Longrightarrow> n \<noteq> 0 \<Longrightarrow>
     price (newListing listings form stored now) = Some n"
  by (simp_all add: newListing_def)

text \<open>
  Claim C1 (numeric form fields are unset exactly when absent or unparsable).  The code
  departs from it: a request whose fields \<open>age\<close>, \<open>weight\<close> and \<open>price\<close> are the text
  \<open>0\<close> is accepted, each of the three parses as the integer \<open>0\<close>, and the Listing that is
  created and stored has all three unset.
\<close>

theorem zero_field_is_unset:
  "parseIntField (zeroForm ''age'') = Some 0 \<and>
   parseIntField (zeroForm ''weight'') = Some 0 \<and>
   parseIntField (zeroForm ''price'') = Some 0 \<and>
   post_listings [] zeroRequest =
     ([newListing [] zeroForm [] (handledAt zeroRequest)],
      Created (newListing [] zeroForm [] (handledAt zeroRequest))) \<and>
   age (newListing [] zeroForm [] (handledAt zeroRequest)) = None \<and>
   weight (newListing [] zeroForm [] (handledAt zeroRequest)) = None \<and>
   price (newListing [] zeroForm [] (handledAt zeroRequest)) = None"
  by (simp add: zeroForm_def zeroRequest_def parseInt_zero post_listings_def newListing_def Let_def)

lemma post_listings_result:
  "(\<exists>err. post_listings ls req = (ls, Failed err)) \<or>
   (\<exists>l. post_listings ls req = (ls @ [l], Created l) \<and> id_l l = Suc (length ls))"
  by (auto simp: post_listings_def newListing_def Let_def split: request_body.splits sum.splits)

lemma serve_all_ids:
  "serve_all ls reqs = (final, resps) \<Longrightarrow>
   created_ids resps = [Suc (length ls) ..< Suc (length final)] \<and> length ls \<le> length final \<and>
   map id_l final = map id_l ls @ created_ids resps"
proof (induction reqs arbitrary: ls final resps)
  case Nil
  then show ?case by simp
next
  case (Cons r rs)
  obtain ls' resp where s: "serve ls r = (ls', resp)" by force
  obtain final' resps' where t: "serve_all ls' rs = (final', resps')" by force
  from Cons.prems s t have fr: "final = final'" "resps = resp # resps'" by auto
  from Cons.IH[OF t] have ih: "created_ids resps' = [Suc (length ls') ..< Suc (length final')]"
    "length ls' \<le> length final'" "map id_l final' = map id_l ls' @ created_ids resps'" by auto
  show ?case
  proof (cases r)
    case GET_listings
    with s have "ls' = ls" "resp = Ok ls" by (auto simp: get_listings_def)
    with ih fr show ?thesis by simp
  next
    case (POST_listings req)
    with s have p: "post_listings ls req = (ls', resp)" by simp
    from post_listings_result[of ls req] show ?thesis
    proof
      assume "\<exists>err. post_listings ls req = (ls, Failed err)"
      with p have "ls' = ls" "\<exists>err. resp = Failed err" by auto
      with ih fr show ?thesis by auto
    next
      assume "\<exists>l. post_listings ls req = (ls @ [l], Created l) \<and> id_l l = Suc (length ls)"
      then obtain l where "post_listings ls req = (ls @ [l], Created l)" "id_l l = Suc (length ls)"
        by blast
      with p have "ls' = ls @ [l]" "resp = Created l" "id_l l = Suc (length ls)" by auto
      with ih fr show ?thesis by (simp add: upt_conv_Cons)
    qed
  qed
qed

lemma upt_from_one_props:
  "ids = [1 ..< Suc n] \<Longrightarrow>
   ids = [1 ..< Suc (length ids)] \<and> distinct ids \<and> sorted ids \<and>
   (\<forall>i. Suc i < length ids \<longrightarrow> ids ! Suc i = ids ! i + 1)"
  by (simp del: upt_Suc)

text \<open>
  Claim C2 (identifiers of created Listings).  Over any sequence of requests served from
  the empty collection, the identifiers given by the successful POSTs are, in order,
  \<open>1, 2, 3, ...\<close>: they are distinct, increasing, each is one more than the one before, and
  they are the identifiers of the records in the final collection.
\<close>

theorem listing_ids_consecutive:
  "(let ids = created_ids (snd (serve_all [] reqs)) in
      ids = [1 ..< Suc (length ids)] \<and> distinct ids \<and> sorted ids \<and>
      (\<forall>i. Suc i < length ids \<longrightarrow> ids ! Suc i = ids ! i + 1) \<and>
      map id_l (fst (serve_all [] reqs)) = ids)"
proof -
  obtain final resps where t: "serve_all [] reqs = (final, resps)" by force
  from serve_all_ids[OF t] have e: "created_ids resps = [1 ..< Suc (length final)]"
    and m: "map id_l final = created_ids resps" by simp_all
  from upt_from_one_props[OF e] m show ?thesis unfolding Let_def using t by simp
qed

lemma goat_accepted: "upload_array ''images'' 5 [goatUpload] = Inr [''1704067200000-goat.JPG'']"
  by (simp add: goatUpload_def fileObject_def fileFilter_def filetypes_test_def extname_def
      toLowerCase_def toLowerChar_def fileSize_def filename_def digitChar_def char_of_def bit_0)

lemma gif_rejected:
  "upload_array ''images'' 5 [goatUpload, gifUpload] = Inl (Error ''Only JPEG/PNG images are allowed'')"
  by (simp add: goatUpload_def gifUpload_def fileObject_def fileFilter_def filetypes_test_def
      extname_def toLowerCase_def toLowerChar_def fileSize_def filename_def char_of_def bit_0)

lemma huge_rejected: "upload_array ''images'' 5 [hugeUpload] = Inl (MulterError ''LIMIT_FILE_SIZE'')"
  by (simp add: hugeUpload_def fileObject_def fileFilter_def filetypes_test_def extname_def
      toLowerCase_def toLowerChar_def fileSize_def char_of_def bit_0)

lemma goat_post:
  "post_listings ls goatRequest =
     (ls @ [newListing ls goatForm [''1704067200000-goat.JPG''] ''2024-01-01T00:00:00.000Z''],
      Created (newListing ls goatForm [''1704067200000-goat.JPG''] ''2024-01-01T00:00:00.000Z''))"
  by (simp add: post_listings_def goatRequest_def goat_accepted Let_def del: upload_array.simps)

lemma gif_post:
  "post_listings ls gifRequest = (ls, Failed (Error ''Only JPEG/PNG images are allowed''))"
  by (simp add: post_listings_def gifRequest_def gif_rejected del: upload_array.simps)

lemma huge_post:
  "post_listings ls hugeRequest = (ls, Failed (MulterError ''LIMIT_FILE_SIZE''))"
  by (simp add: post_listings_def hugeRequest_def huge_rejected del: upload_array.simps)

theorem listing_ids_consecutive_witness:
  "created_ids (snd (serve_all []
      [POST_listings goatRequest, POST_listings gifRequest, GET_listings,
       POST_listings hugeRequest, POST_listings goatRequest])) = [1, 2] \<and>
   Suc 0 < length [1, 2 :: nat] \<and> [1, 2 :: nat] ! Suc 0 = [1, 2] ! 0 + 1"
  using listing_ids_consecutive
    [of "[POST_listings goatRequest, POST_listings gifRequest, GET_listings,
          POST_listings hugeRequest, POST_listings goatRequest]"]
  by (simp add: Let_def get_listings_def goat_post gif_post huge_post newListing_def)

text \<open>The type test asks for an occurrence of one of the three words, nothing more.\<close>

lemma filetypes_test_iff:
  "filetypes_test s \<longleftrightarrow> sublist ''jpeg'' s \<or> sublist ''jpg'' s \<or> sublist ''png'' s"
  by (simp add: filetypes_test_def includesStr_iff_sublist)

text \<open>A media type declared in upper case passes, and a part without a file name is passed
  over whatever it is.\<close>

lemma upper_accepted: "upload_array ''images'' 5 [upperUpload] = Inr [''1704067200000-kid.png'']"
  by (simp add: upperUpload_def fileObject_def fileFilter_def filetypes_test_def extname_def
      toLowerCase_def toLowerChar_def fileSize_def filename_def digitChar_def char_of_def bit_0)

lemma nameless_skipped: "upload_array ''images'' 5 [namelessUpload] = Inr []"
  by (simp add: namelessUpload_def)

text \<open>What the middleware does refuse: a request with a named part that fails the type test
  of the code or is larger than the limit.\<close>

lemma upload_array_rejects:
  "f \<in> set files \<Longrightarrow> originalname f \<noteq> [] \<Longrightarrow>
   \<not> (filetypes_test (toLowerCase (extname (originalname f))) \<and>
      filetypes_test (toLowerCase (mimetype f)))
     \<or> fileSize < fileBytes f \<Longrightarrow>
   \<exists>err. upload_array name n files = Inl err"
proof (induction files arbitrary: n)
  case Nil
  then show ?case by simp
next
  case (Cons g rest)
  show ?case
  proof (cases "f = g")
    case True
    with Cons.prems(2,3) show ?thesis
      by (auto simp: fileFilter_def fileObject_def Let_def split: sum.splits)
  next
    case False
    with Cons.prems have "f \<in> set rest" by simp
    from Cons.IH[OF this Cons.prems(2,3)]
    have "\<exists>err. upload_array name k rest = Inl err" for k by blast
    then obtain e1 e2 where "upload_array name n rest = Inl e1"
      "upload_array name (n - 1) rest = Inl e2" by blast
    then show ?thesis by (auto split: sum.splits)
  qed
qed

lemma post_listings_rejects:
  assumes "body req = Multipart form files"
    and "f \<in> set files" and "originalname f \<noteq> []"
    and "\<not> (filetypes_test (toLowerCase (extname (originalname f))) \<and>
           filetypes_test (toLowerCase (mimetype f)))
         \<or> 5 * 1024 * 1024 < fileBytes f"
  shows "\<exists>err. post_listings listings req = (listings, Failed err)"
proof -
  from assms(4)
  have "\<not> (filetypes_test (toLowerCase (extname (originalname f))) \<and>
           filetypes_test (toLowerCase (mimetype f)))
         \<or> fileSize < fileBytes f"
    by (simp add: fileSize_def)
  from upload_array_rejects[OF assms(2,3) this]
  obtain err where "upload_array ''images'' 5 files = Inl err" by blast
  with assms(1) show ?thesis by (simp add: post_listings_def)
qed

lemma pngx_accepted:
  "upload_array ''images'' 5 [pngxUpload] = Inr [''1704067200000-archive.pngx'']"
  by (simp add: pngxUpload_def fileObject_def fileFilter_def filetypes_test_def extname_def
      toLowerCase_def toLowerChar_def fileSize_def filename_def digitChar_def char_of_def bit_0)

text \<open>
  Claim C3 (an attachment that is not JPEG/PNG fails the request and creates nothing).
  The code departs from it: the pattern \<open>jpeg|jpg|png\<close> has no anchors, so a part named
  \<open>archive.pngx\<close> and declared as \<open>image/x-png-thing\<close>, which is neither a JPEG nor a PNG
  by its extension \<open>.pngx\<close> or by its media type, passes \<open>fileFilter\<close>; the request is
  answered with the created Listing, and the collection has grown by that Listing, whose
  image is the stored file.
\<close>

theorem pngx_attachment_accepted:
  "extname (originalname pngxUpload) = ''.pngx'' \<and>
   mimetype (fileObject pngxUpload) = ''image/x-png-thing'' \<and>
   fileFilter (fileObject pngxUpload) = Inr True \<and>
   post_listings [] pngxRequest =
     ([newListing [] goatForm [''1704067200000-archive.pngx''] (handledAt pngxRequest)],
      Created (newListing [] goatForm [''1704067200000-archive.pngx''] (handledAt pngxRequest))) \<and>
   images (newListing [] goatForm [''1704067200000-archive.pngx''] (handledAt pngxRequest)) =
     [''/uploads/1704067200000-archive.pngx'']"
proof -
  have e: "extname (originalname pngxUpload) = ''.pngx''"
    by (simp add: pngxUpload_def extname_def)
  have m: "mimetype (fileObject pngxUpload) = ''image/x-png-thing''"
    by (simp add: pngxUpload_def fileObject_def toLowerCase_def toLowerChar_def)
  have f: "fileFilter (fileObject pngxUpload) = Inr True"
    by (simp add: pngxUpload_def fileObject_def fileFilter_def filetypes_test_def extname_def
        toLowerCase_def toLowerChar_def char_of_def bit_0)
  have p: "post_listings [] pngxRequest =
     ([newListing [] goatForm [''1704067200000-archive.pngx''] (handledAt pngxRequest)],
      Created (newListing [] goatForm [''1704067200000-archive.pngx''] (handledAt pngxRequest)))"
    by (simp add: post_listings_def pngxRequest_def pngx_accepted Let_def del: upload_array.simps)
  have i: "images (newListing [] goatForm [''1704067200000-archive.pngx''] (handledAt pngxRequest)) =
     [''/uploads/1704067200000-archive.pngx'']"
    by (simp add: newListing_def)
  from e m f p i show ?thesis by blast
qed

section \<open>Properties of the Payments view\<close>

subsection \<open>Sorting with a comparator\<close>

lemma mset_insertBy: "mset (insertBy cmp x ys) = add_mset x (mset ys)"
  by (induction ys) auto

lemma mset_sortBy: "mset (sortBy cmp xs) = mset xs"
  by (induction xs) (auto simp: mset_insertBy)

lemma set_insertBy: "set (insertBy cmp x ys) = insert x (set ys)"
  by (induction ys) auto

lemma set_sortBy: "set (sortBy cmp xs) = set xs"
  by (induction xs) (auto simp: set_insertBy)

lemma sorted_wrt_insertBy:
  assumes tot: "\<And>a b. a \<in> A \<Longrightarrow> b \<in> A \<Longrightarrow> notAfter cmp a b \<or> notAfter cmp b a"
    and tr: "\<And>a b c. a \<in> A \<Longrightarrow> b \<in> A \<Longrightarrow> c \<in> A \<Longrightarrow>
               notAfter cmp a b \<Longrightarrow> notAfter cmp b c \<Longrightarrow> notAfter cmp a c"
    and x: "x \<in> A"
  shows "set ys \<subseteq> A \<Longrightarrow> sorted_wrt (notAfter cmp) ys \<Longrightarrow>
         sorted_wrt (notAfter cmp) (insertBy cmp x ys)"
proof (induction ys)
  case Nil
  show ?case by simp
next
  case (Cons y ys)
  from Cons.prems have yA: "y \<in> A" and ysA: "set ys \<subseteq> A"
    and y_first: "\<forall>z\<in>set ys. notAfter cmp y z" and s: "sorted_wrt (notAfter cmp) ys"
    by auto
  show ?case
  proof (cases "notAfter cmp x y")
    case True
    have "notAfter cmp x z" if "z \<in> set ys" for z
    proof -
      from that ysA have zA: "z \<in> A" by blast
      from that y_first have "notAfter cmp y z" by blast
      with True show ?thesis by (rule tr[OF x yA zA])
    qed
    with True y_first s show ?thesis by simp
  next
    case False
    with tot[OF x yA] have "notAfter cmp y x" by blast
    with y_first have "\<forall>z\<in>set (insertBy cmp x ys). notAfter cmp y z"
      by (simp add: set_insertBy)
    with False Cons.IH[OF ysA s] show ?thesis by simp
  qed
qed

lemma sorted_wrt_sortBy:
  assumes tot: "\<And>a b. a \<in> A \<Longrightarrow> b \<in> A \<Longrightarrow> notAfter cmp a b \<or> notAfter cmp b a"
    and tr: "\<And>a b c. a \<in> A \<Longrightarrow> b \<in> A \<Longrightarrow> c \<in> A \<Longrightarrow>
               notAfter cmp a b \<Longrightarrow> notAfter cmp b c \<Longrightarrow> notAfter cmp a c"
  shows "set xs \<subseteq> A \<Longrightarrow> sorted_wrt (notAfter cmp) (sortBy cmp xs)"
proof (induction xs)
  case Nil
  show ?case by simp
next
  case (Cons x xs)
  then have xA: "x \<in> A" and sub: "set (sortBy cmp xs) \<subseteq> A"
    and s: "sorted_wrt (notAfter cmp) (sortBy cmp xs)"
    by (auto simp: set_sortBy)
  have "sorted_wrt (notAfter cmp) (insertBy cmp x (sortBy cmp xs))"
    using tot tr xA sub s by (rule sorted_wrt_insertBy[where A = A])
  then show ?case by simp
qed

text \<open>A comparator that never gives a positive number leaves the array as it is.\<close>

lemma sortBy_id:
  assumes "\<And>a b. notAfter cmp a b"
  shows "sortBy cmp xs = xs"
proof (induction xs)
  case Nil
  show ?case by simp
next
  case (Cons x xs)
  show ?case
  proof (cases xs)
    case Nil
    then show ?thesis by simp
  next
    case (Cons y ys)
    have "notAfter cmp x y" by (rule assms)
    with Cons \<open>sortBy cmp xs = xs\<close> show ?thesis by simp
  qed
qed

lemma sorted_wrt_sortBy_rel:
  assumes rel: "\<And>a b. a \<in> A \<Longrightarrow> b \<in> A \<Longrightarrow> notAfter cmp a b = R a b"
    and tot: "\<And>a b. a \<in> A \<Longrightarrow> b \<in> A \<Longrightarrow> R a b \<or> R b a"
    and tr: "\<And>a b c. a \<in> A \<Longrightarrow> b \<in> A \<Longrightarrow> c \<in> A \<Longrightarrow> R a b \<Longrightarrow> R b c \<Longrightarrow> R a c"
    and sub: "set xs \<subseteq> A"
  shows "sorted_wrt R (sortBy cmp xs)"
proof -
  have t: "notAfter cmp a b \<or> notAfter cmp b a" if "a \<in> A" "b \<in> A" for a b
    using tot[OF that] rel[OF that] rel[OF that(2) that(1)] by blast
  have r: "notAfter cmp a c" if "a \<in> A" "b \<in> A" "c \<in> A" "notAfter cmp a b" "notAfter cmp b c"
    for a b c
  proof -
    from that rel have "R a b" "R b c" by blast+
    then have "R a c" by (rule tr[OF that(1-3)])
    with that rel show ?thesis by blast
  qed
  have "sorted_wrt (notAfter cmp) (sortBy cmp xs)"
    using t r sub by (rule sorted_wrt_sortBy[where A = A])
  moreover have "R a b" if "a \<in> set (sortBy cmp xs)" "b \<in> set (sortBy cmp xs)" "notAfter cmp a b"
    for a b
  proof -
    from that sub have "a \<in> A" "b \<in> A" by (auto simp: set_sortBy)
    with that rel show ?thesis by blast
  qed
  ultimately show ?thesis by (rule sorted_wrt_mono_rel[rotated])
qed

lemma inDirection_total: "inDirection dir (x - y) \<or> inDirection dir (y - x)"
  by (auto simp: inDirection_def)

lemma inDirection_trans:
  "inDirection dir (x - y) \<Longrightarrow> inDirection dir (y - z) \<Longrightarrow> inDirection dir (x - z)"
  by (auto simp: inDirection_def split: if_splits)

lemma consistent_anti:
  "consistentComparator lc \<Longrightarrow> (lc x y < 0) = (0 < lc y x)"
  unfolding consistentComparator_def by blast

lemma consistent_le_trans:
  "consistentComparator lc \<Longrightarrow> lc x y \<le> 0 \<Longrightarrow> lc y z \<le> 0 \<Longrightarrow> lc x z \<le> 0"
  unfolding consistentComparator_def by blast

lemma consistent_flip:
  assumes "consistentComparator lc"
  shows "(0 \<le> lc x y) = (lc y x \<le> 0)"
proof -
  have "(lc x y < 0) = (0 < lc y x)" by (rule consistent_anti[OF assms])
  then show ?thesis by linarith
qed

lemma consistent_total:
  assumes "consistentComparator lc"
  shows "inDirection dir (lc x y) \<or> inDirection dir (lc y x)"
proof -
  have "(0 \<le> lc x y) = (lc y x \<le> 0)" by (rule consistent_flip[OF assms])
  moreover have "(0 \<le> lc y x) = (lc x y \<le> 0)" by (rule consistent_flip[OF assms])
  ultimately show ?thesis unfolding inDirection_def by (cases dir; simp; linarith)
qed

lemma consistent_trans:
  assumes c: "consistentComparator lc"
    and xy: "inDirection dir (lc x y)" and yz: "inDirection dir (lc y z)"
  shows "inDirection dir (lc x z)"
proof (cases dir)
  case Asc
  with xy yz have "lc x y \<le> 0" "lc y z \<le> 0" by (simp_all add: inDirection_def)
  then have "lc x z \<le> 0" by (rule consistent_le_trans[OF c])
  with Asc show ?thesis by (simp add: inDirection_def)
next
  case Desc
  with xy yz have "0 \<le> lc x y" "0 \<le> lc y z" by (simp_all add: inDirection_def)
  then have "lc z y \<le> 0" "lc y x \<le> 0" by (simp_all add: consistent_flip[OF c])
  then have "lc z x \<le> 0" by (rule consistent_le_trans[OF c])
  then have "0 \<le> lc x z" by (simp add: consistent_flip[OF c])
  with Desc show ?thesis by (simp add: inDirection_def)
qed

lemma notAfter_amount:
  "notAfter (compareFn gt lc (Some ''amount'') dir) a b = inDirection dir (amount a - amount b)"
  by (cases dir) (simp_all add: notAfter_def compareFn_def inDirection_def)

lemma notAfter_buyer:
  "notAfter (compareFn gt lc (Some ''buyer'') dir) a b =
     inDirection dir (lc (orElse (buyer a) []) (orElse (buyer b) []))"
  by (cases dir) (simp_all add: notAfter_def compareFn_def inDirection_def)

lemma notAfter_seller:
  "notAfter (compareFn gt lc (Some ''seller'') dir) a b =
     inDirection dir (lc (orElse (seller a) []) (orElse (seller b) []))"
  by (cases dir) (simp_all add: notAfter_def compareFn_def inDirection_def)

lemma notAfter_status:
  "notAfter (compareFn gt lc (Some ''status'') dir) a b = inDirection dir (lc (status a) (status b))"
  by (cases dir) (simp_all add: notAfter_def compareFn_def inDirection_def)

lemma notAfter_date:
  "dateTime gt (date a) = Some ta \<Longrightarrow> dateTime gt (date b) = Some tb \<Longrightarrow>
   notAfter (compareFn gt lc (Some ''date'') dir) a b = inDirection dir (ta - tb)"
  by (cases dir) (simp_all add: notAfter_def compareFn_def inDirection_def)

lemma notAfter_no_column: "notAfter (compareFn gt lc None dir) a b"
  by (simp add: notAfter_def compareFn_def)

lemma codeUnitCompare_anti: "(codeUnitCompare x y < 0) = (0 < codeUnitCompare y x)"
  by (induction x y rule: codeUnitCompare.induct) auto

lemma codeUnitCompare_trans:
  "codeUnitCompare x y \<le> 0 \<Longrightarrow> codeUnitCompare y z \<le> 0 \<Longrightarrow> codeUnitCompare x z \<le> 0"
proof (induction x y arbitrary: z rule: codeUnitCompare.induct)
  case 1
  then show ?case by simp
next
  case (2 b t)
  then show ?case by (cases z) auto
next
  case (3 a s)
  then show ?case by simp
next
  case (4 a s b t)
  show ?case
  proof (cases z)
    case Nil
    with "4.prems" show ?thesis by simp
  next
    case (Cons c u)
    with "4.prems" "4.IH"[of u] show ?thesis
      by (auto split: if_splits)
  qed
qed

lemma codeUnitCompare_consistent: "consistentComparator codeUnitCompare"
  unfolding consistentComparator_def
  using codeUnitCompare_anti codeUnitCompare_trans by blast

subsection \<open>Search\<close>

lemma nullableIncludes_iff:
  "nullableIncludes (Some s) term \<longleftrightarrow> s \<noteq> [] \<and> caseInsensitiveSubstring term s"
  by (simp add: includesStr_iff_sublist caseInsensitiveSubstring_def)

lemma ci_empty_field: "caseInsensitiveSubstring term [] \<Longrightarrow> caseInsensitiveSubstring term field"
  by (simp add: caseInsensitiveSubstring_def toLowerCase_def)

lemma searchMatches_empty: "searchMatches [] p"
  by (simp add: searchMatches_def toLowerCase_def includesStr_empty)

lemma searchMatches_iff_substring:
  "searchMatches term p \<longleftrightarrow>
      (\<exists>b. buyer p = Some b \<and> caseInsensitiveSubstring term b) \<or>
      (\<exists>s. seller p = Some s \<and> caseInsensitiveSubstring term s) \<or>
      caseInsensitiveSubstring term (orderId p) \<or>
      caseInsensitiveSubstring term (paymentMethod p)"
proof -
  have field: "nullableIncludes f term \<or> caseInsensitiveSubstring term (orderId p) \<longleftrightarrow>
      (\<exists>s. f = Some s \<and> caseInsensitiveSubstring term s) \<or> caseInsensitiveSubstring term (orderId p)"
    for f
  proof (cases f)
    case None
    then show ?thesis by simp
  next
    case (Some s)
    show ?thesis unfolding Some nullableIncludes_iff
      using ci_empty_field[of "term" "orderId p"] by blast
  qed
  have ord: "includesStr (toLowerCase (orderId p)) (toLowerCase term) =
      caseInsensitiveSubstring term (orderId p)"
    and pm: "includesStr (toLowerCase (paymentMethod p)) (toLowerCase term) =
      caseInsensitiveSubstring term (paymentMethod p)"
    by (simp_all add: includesStr_iff_sublist caseInsensitiveSubstring_def)
  show ?thesis
    unfolding searchMatches_def ord pm using field[of "buyer p"] field[of "seller p"] by blast
qed

text \<open>
  Claim C6 (search).  The search keeps a record exactly when the term is a case-insensitive
  substring of its buyer, of its seller, of its order identifier or of its payment method
  (a buyer or seller that is \<open>null\<close> has no substring); the list shown to the later
  stages is the fetched list filtered by that condition; and the empty term keeps every
  record.
\<close>

theorem search_matches_iff:
  "(searchMatches term p \<longleftrightarrow>
      (\<exists>b. buyer p = Some b \<and> caseInsensitiveSubstring term b) \<or>
      (\<exists>s. seller p = Some s \<and> caseInsensitiveSubstring term s) \<or>
      caseInsensitiveSubstring term (orderId p) \<or>
      caseInsensitiveSubstring term (paymentMethod p)) \<and>
   filteredPayments v =
     filter (\<lambda>q. (\<exists>b. buyer q = Some b \<and> caseInsensitiveSubstring (searchTerm v) b) \<or>
                 (\<exists>s. seller q = Some s \<and> caseInsensitiveSubstring (searchTerm v) s) \<or>
                 caseInsensitiveSubstring (searchTerm v) (orderId q) \<or>
                 caseInsensitiveSubstring (searchTerm v) (paymentMethod q)) (payments v) \<and>
   searchMatches [] p \<and>
   filteredPayments (v\<lparr>searchTerm := []\<rparr>) = payments v"
proof -
  have 1: "filteredPayments v =
     filter (\<lambda>q. (\<exists>b. buyer q = Some b \<and> caseInsensitiveSubstring (searchTerm v) b) \<or>
                 (\<exists>s. seller q = Some s \<and> caseInsensitiveSubstring (searchTerm v) s) \<or>
                 caseInsensitiveSubstring (searchTerm v) (orderId q) \<or>
                 caseInsensitiveSubstring (searchTerm v) (paymentMethod q)) (payments v)"
    unfolding filteredPayments_def by (rule filter_cong) (simp_all add: searchMatches_iff_substring)
  have 2: "filteredPayments (v\<lparr>searchTerm := []\<rparr>) = payments v"
    by (simp add: filteredPayments_def searchMatches_empty)
  from searchMatches_iff_substring[of "term" p] 1 searchMatches_empty[of p] 2
  show ?thesis by blast
qed

theorem search_matches_iff_witness:
  "searchMatches ''A'' paymentA \<and> caseInsensitiveSubstring ''A'' ''Alice'' \<and>
   searchMatches ''ord-b'' paymentB \<and> caseInsensitiveSubstring ''ord-b'' (orderId paymentB) \<and>
   \<not> searchMatches ''zebra'' paymentA"
proof -
  have a: "caseInsensitiveSubstring ''A'' ''Alice''"
    by (simp add: caseInsensitiveSubstring_def toLowerCase_def toLowerChar_def char_of_def bit_0
        sublist_code prefix_code)
  have b: "caseInsensitiveSubstring ''ord-b'' (orderId paymentB)"
    by (simp add: caseInsensitiveSubstring_def toLowerCase_def toLowerChar_def char_of_def bit_0
        sublist_code prefix_code paymentB_def)
  have z: "\<not> searchMatches ''zebra'' paymentA"
    by (simp add: searchMatches_def paymentA_def toLowerCase_def toLowerChar_def char_of_def bit_0)
  from search_matches_iff[of "''A''" paymentA loadedView] a
  have 1: "searchMatches ''A'' paymentA" by (simp add: paymentA_def)
  from search_matches_iff[of "''ord-b''" paymentB loadedView] b
  have 2: "searchMatches ''ord-b'' paymentB" by blast
  from 1 2 a b z show ?thesis by blast
qed

subsection \<open>Fetching and transforming\<close>

lemma fetchPayments_failure:
  "snd (tryBlock v outcome) = Some err \<Longrightarrow>
   fetchPayments v outcome =
     v\<lparr>isLoading := False, toasts := toasts v @ [''Failed to load payment data. Please try again.'']\<rparr>"
  by (auto simp: fetchPayments_def tryBlock_def catchBlock_def finallyBlock_def Let_def
      split: fetch_outcome.splits response_data.splits sum.splits)

text \<open>
  Claim C4 (a failed fetch).  When the \<open>try\<close> block of the fetch on mount throws (the
  request is rejected, or the body is not an array of orders), the view ends not loading,
  with an empty list of payments, with exactly one notification emitted, and it shows the
  screen for an empty list: the exception does not leave \<open>fetchPayments\<close>.
\<close>

theorem fetch_failure_fails_soft:
  assumes "snd (tryBlock initialView outcome) = Some err"
  shows "\<not> isLoading (fetchPayments initialView outcome) \<and>
         payments (fetchPayments initialView outcome) = [] \<and>
         toasts (fetchPayments initialView outcome) = [''Failed to load payment data. Please try again.''] \<and>
         length (toasts (fetchPayments initialView outcome)) = 1 \<and>
         render (fetchPayments initialView outcome) = NoPaymentsFound"
  unfolding fetchPayments_failure[OF assms] by (simp add: initialView_def render_def)

theorem fetch_failure_fails_soft_witness:
  "snd (tryBlock initialView (Rejected (Error ''Network Error''))) = Some (Error ''Network Error'') \<and>
   \<not> isLoading (fetchPayments initialView (Rejected (Error ''Network Error''))) \<and>
   payments (fetchPayments initialView (Rejected (Error ''Network Error''))) = [] \<and>
   length (toasts (fetchPayments initialView (Rejected (Error ''Network Error'')))) = 1"
proof -
  have h: "snd (tryBlock initialView (Rejected (Error ''Network Error''))) = Some (Error ''Network Error'')"
    by (simp add: tryBlock_def)
  from fetch_failure_fails_soft[OF h] h show ?thesis by blast
qed

text \<open>
  Claim C5 as stated (the fallback for a buyer without identifier is the text
  \<open>Unknown\<close>) fails: for an order with no buyer and no buyer identifier the view model's
  buyer is \<open>Buyer ID: Unknown\<close>.
\<close>

theorem buyer_fallback_counterexample:
  "o_buyer orderC = None \<and> o_buyerId orderC = None \<and>
   buyer (transformOrder orderC) = Some ''Buyer ID: Unknown'' \<and>
   buyer (transformOrder orderC) \<noteq> Some ''Unknown''"
  by (simp add: orderC_def transformOrder_def)

text \<open>
  Claim C5, amended.  The buyer of the view model is the raw buyer when that is a
  non-empty text; when the raw buyer is missing or empty it is \<open>Buyer ID: \<close> followed by
  the buyer identifier when there is a non-zero one, and \<open>Buyer ID: Unknown\<close> when there
  is none.  The seller is the raw seller when that is a non-empty text, and
  \<open>Unknown Seller\<close> when it is missing or empty.
\<close>

theorem buyer_seller_fallback:
  "(o_buyer order = Some b \<and> b \<noteq> [] \<longrightarrow> buyer (transformOrder order) = Some b) \<and>
   (\<not> truthy (o_buyer order) \<and> o_buyerId order = Some n \<and> n \<noteq> 0 \<longrightarrow>
      buyer (transformOrder order) = Some (''Buyer ID: '' @ intToString n)) \<and>
   (\<not> truthy (o_buyer order) \<and> o_buyerId order = None \<longrightarrow>
      buyer (transformOrder order) = Some ''Buyer ID: Unknown'') \<and>
   (o_seller order = Some s \<and> s \<noteq> [] \<longrightarrow> seller (transformOrder order) = Some s) \<and>
   (\<not> truthy (o_seller order) \<longrightarrow> seller (transformOrder order) = Some ''Unknown Seller'')"
proof -
  have t: "\<not> truthy x \<Longrightarrow> orElse x d = d" for x d
    by (cases x) auto
  show ?thesis by (auto simp: transformOrder_def t)
qed

theorem buyer_seller_fallback_witness:
  "o_buyer orderA = Some ''Alice'' \<and> ''Alice'' \<noteq> [] \<and> buyer (transformOrder orderA) = Some ''Alice'' \<and>
   \<not> truthy (o_buyer orderB) \<and> o_buyerId orderB = Some 42 \<and> (42::int) \<noteq> 0 \<and>
   buyer (transformOrder orderB) = Some ''Buyer ID: 42'' \<and>
   \<not> truthy (o_buyer orderC) \<and> o_buyerId orderC = None \<and>
   buyer (transformOrder orderC) = Some ''Buyer ID: Unknown'' \<and>
   o_seller orderA = Some ''Farm One'' \<and> seller (transformOrder orderA) = Some ''Farm One'' \<and>
   \<not> truthy (o_seller orderB) \<and> seller (transformOrder orderB) = Some ''Unknown Seller''"
  using buyer_seller_fallback[of orderA "''Alice''" 0 "''Farm One''"]
    buyer_seller_fallback[of orderB "[]" 42 "[]"]
    buyer_seller_fallback[of orderC "[]" 0 "[]"]
  by (simp add: orderA_def orderB_def orderC_def intToString_def digitChar_def char_of_def bit_0)

lemma transform_samples:
  "transformOrder orderA = paymentA" "transformOrder orderB = paymentB"
  by (simp_all add: transformOrder_def orderA_def orderB_def paymentA_def paymentB_def
      intToString_def digitChar_def char_of_def bit_0)

lemma transformedPayments_fields:
  "transformedPayments os = Inr qs \<Longrightarrow>
     map (\<lambda>p. Some (amount p)) qs = map (map_option o_total) os \<and>
     map (\<lambda>p. Some (method_p p)) qs = map (map_option o_paymentMethod) os"
proof (induction os arbitrary: qs rule: transformedPayments.induct)
  case 1
  then show ?case by simp
next
  case (2 rest)
  then show ?case by simp
next
  case (3 order rest)
  then show ?case by (auto simp: transformOrder_def split: sum.splits)
qed

lemma transformedPayments_set:
  "transformedPayments os = Inr qs \<Longrightarrow> p \<in> set qs \<Longrightarrow>
   \<exists>order. Some order \<in> set os \<and> p = transformOrder order"
proof (induction os arbitrary: qs rule: transformedPayments.induct)
  case 1
  then show ?case by simp
next
  case (2 rest)
  then show ?case by simp
next
  case (3 order rest)
  then show ?case by (fastforce split: sum.splits)
qed

lemma fetchPayments_success:
  "transformedPayments orders = Inr ps \<Longrightarrow>
   payments (fetchPayments v (Resolved (Array orders))) = ps"
  by (simp add: fetchPayments_def tryBlock_def finallyBlock_def)

lemma set_filteredPayments: "set (filteredPayments v) \<subseteq> set (payments v)"
  by (auto simp: filteredPayments_def)

lemma set_shown: "set (filterPaymentsByStatus gt lc v tab) \<subseteq> set (payments v)"
  using set_filteredPayments[of v]
  by (auto simp: filterPaymentsByStatus_def sortedPayments_def set_sortBy)

text \<open>
  Claim C10 (amount and method).  The view model's amount is the raw order's total and its
  method is the raw order's payment method, whatever the subtotal and the tax are; after a
  successful fetch the amounts and methods of the payments are, in order, the totals and
  payment methods of the orders; and every row that a tab shows is the view model of one of
  the fetched orders, with that order's total as its amount.
\<close>

theorem amount_is_total:
  "amount (transformOrder order) = o_total order \<and>
   method_p (transformOrder order) = o_paymentMethod order \<and>
   amount (transformOrder (order\<lparr>o_subtotal := s, o_tax := t\<rparr>)) = o_total order \<and>
   (transformedPayments orders = Inr ps \<longrightarrow>
      payments (fetchPayments v (Resolved (Array orders))) = ps \<and>
      map (\<lambda>p. Some (amount p)) ps = map (map_option o_total) orders \<and>
      map (\<lambda>p. Some (method_p p)) ps = map (map_option o_paymentMethod) orders) \<and>
   (transformedPayments orders = Inr (payments w) \<and> p \<in> set (filterPaymentsByStatus gt lc w tab) \<longrightarrow>
      (\<exists>raw. Some raw \<in> set orders \<and> p = transformOrder raw \<and> amount p = o_total raw \<and>
             method_p p = o_paymentMethod raw))"
proof -
  have shown: "\<exists>raw. Some raw \<in> set orders \<and> p = transformOrder raw \<and> amount p = o_total raw \<and>
             method_p p = o_paymentMethod raw"
    if "transformedPayments orders = Inr (payments w)" "p \<in> set (filterPaymentsByStatus gt lc w tab)"
  proof -
    from that(2) set_shown[of gt lc w tab] have "p \<in> set (payments w)" by blast
    from transformedPayments_set[OF that(1) this]
    obtain raw where "Some raw \<in> set orders" "p = transformOrder raw" by blast
    then show ?thesis by (auto simp: transformOrder_def)
  qed
  show ?thesis
    using transformedPayments_fields[of orders ps] fetchPayments_success[of orders ps v] shown
    by (simp add: transformOrder_def)
qed

theorem amount_is_total_witness:
  "o_total orderA \<noteq> o_subtotal orderA + o_tax orderA \<and>
   transformedPayments [Some orderA, Some orderB] = Inr [paymentA, paymentB] \<and>
   payments (fetchPayments initialView (Resolved (Array [Some orderA, Some orderB]))) = [paymentA, paymentB] \<and>
   map (\<lambda>p. Some (amount p)) [paymentA, paymentB] = [Some 100, Some 50] \<and>
   map (\<lambda>p. Some (method_p p)) [paymentA, paymentB] = [Some ''bank'', Some ''stripe'']"
proof -
  have t: "transformedPayments [Some orderA, Some orderB] = Inr [paymentA, paymentB]"
    by (simp add: transform_samples)
  have n: "o_total orderA \<noteq> o_subtotal orderA + o_tax orderA" by (simp add: orderA_def)
  from amount_is_total[of orderA 0 0 "[Some orderA, Some orderB]" "[paymentA, paymentB]" initialView
      loadedView paymentA sampleGetTime codeUnitCompare "''all-payments''"] t
  have "payments (fetchPayments initialView (Resolved (Array [Some orderA, Some orderB]))) = [paymentA, paymentB]"
    and "map (\<lambda>p. Some (amount p)) [paymentA, paymentB] = map (map_option o_total) [Some orderA, Some orderB]"
    and "map (\<lambda>p. Some (method_p p)) [paymentA, paymentB] = map (map_option o_paymentMethod) [Some orderA, Some orderB]"
    by blast+
  with t n show ?thesis by (simp add: orderA_def orderB_def)
qed

subsection \<open>Sort\<close>

lemma shown_sorted:
  assumes rel: "\<And>a b. a \<in> set (payments v) \<Longrightarrow> b \<in> set (payments v) \<Longrightarrow>
                  notAfter (compareFn gt lc (sortColumn v) (sortDirection v)) a b = R a b"
    and tot: "\<And>a b. a \<in> set (payments v) \<Longrightarrow> b \<in> set (payments v) \<Longrightarrow> R a b \<or> R b a"
    and tr: "\<And>a b c. a \<in> set (payments v) \<Longrightarrow> b \<in> set (payments v) \<Longrightarrow> c \<in> set (payments v) \<Longrightarrow>
                  R a b \<Longrightarrow> R b c \<Longrightarrow> R a c"
  shows "sorted_wrt R (filterPaymentsByStatus gt lc v tab)"
proof -
  have "sorted_wrt R (sortedPayments gt lc v)"
    unfolding sortedPayments_def
    using rel tot tr set_filteredPayments
    by (rule sorted_wrt_sortBy_rel[where A = "set (payments v)"])
  then show ?thesis
    by (simp add: filterPaymentsByStatus_def sorted_wrt_filter)
qed

lemma shown_sorted_amount:
  assumes "sortColumn v = Some ''amount''"
  shows "sorted_wrt (\<lambda>a b. inDirection (sortDirection v) (amount a - amount b))
           (filterPaymentsByStatus gt lc v tab)"
proof (rule shown_sorted)
  show "notAfter (compareFn gt lc (sortColumn v) (sortDirection v)) a b =
          inDirection (sortDirection v) (amount a - amount b)" for a b
    by (simp add: assms notAfter_amount)
  show "inDirection (sortDirection v) (amount a - amount b) \<or>
        inDirection (sortDirection v) (amount b - amount a)" for a b
    by (rule inDirection_total)
  show "inDirection (sortDirection v) (amount a - amount b) \<Longrightarrow>
        inDirection (sortDirection v) (amount b - amount c) \<Longrightarrow>
        inDirection (sortDirection v) (amount a - amount c)" for a b c
    by (rule inDirection_trans)
qed

lemma shown_sorted_string:
  assumes c: "consistentComparator lc"
    and rel: "\<And>a b. notAfter (compareFn gt lc (sortColumn v) (sortDirection v)) a b =
                inDirection (sortDirection v) (lc (k a) (k b))"
  shows "sorted_wrt (\<lambda>a b. inDirection (sortDirection v) (lc (k a) (k b)))
           (filterPaymentsByStatus gt lc v tab)"
proof (rule shown_sorted)
  show "notAfter (compareFn gt lc (sortColumn v) (sortDirection v)) a b =
          inDirection (sortDirection v) (lc (k a) (k b))" for a b
    by (rule rel)
  show "inDirection (sortDirection v) (lc (k a) (k b)) \<or>
        inDirection (sortDirection v) (lc (k b) (k a))" for a b
    by (rule consistent_total[OF c])
  show "inDirection (sortDirection v) (lc (k a) (k b)) \<Longrightarrow>
        inDirection (sortDirection v) (lc (k b) (k c)) \<Longrightarrow>
        inDirection (sortDirection v) (lc (k a) (k c))" for a b c
    by (rule consistent_trans[OF c])
qed

lemma shown_sorted_date:
  assumes col: "sortColumn v = Some ''date''"
    and valid: "\<forall>p\<in>set (payments v). dateTime gt (date p) \<noteq> None"
  shows "sorted_wrt
           (\<lambda>a b. \<exists>ta tb. dateTime gt (date a) = Some ta \<and> dateTime gt (date b) = Some tb \<and>
                     inDirection (sortDirection v) (ta - tb))
           (filterPaymentsByStatus gt lc v tab)"
proof (rule shown_sorted)
  fix a b
  assume "a \<in> set (payments v)" "b \<in> set (payments v)"
  with valid obtain ta tb where t: "dateTime gt (date a) = Some ta" "dateTime gt (date b) = Some tb"
    by blast
  show "notAfter (compareFn gt lc (sortColumn v) (sortDirection v)) a b =
          (\<exists>ta tb. dateTime gt (date a) = Some ta \<and> dateTime gt (date b) = Some tb \<and>
                     inDirection (sortDirection v) (ta - tb))"
    by (simp add: col notAfter_date[OF t] t)
  show "(\<exists>ta tb. dateTime gt (date a) = Some ta \<and> dateTime gt (date b) = Some tb \<and>
                     inDirection (sortDirection v) (ta - tb)) \<or>
        (\<exists>ta tb. dateTime gt (date b) = Some ta \<and> dateTime gt (date a) = Some tb \<and>
                     inDirection (sortDirection v) (ta - tb))"
    using inDirection_total[of "sortDirection v" ta tb] by (simp add: t)
next
  fix a b c
  assume "\<exists>ta tb. dateTime gt (date a) = Some ta \<and> dateTime gt (date b) = Some tb \<and>
                     inDirection (sortDirection v) (ta - tb)"
    and "\<exists>ta tb. dateTime gt (date b) = Some ta \<and> dateTime gt (date c) = Some tb \<and>
                     inDirection (sortDirection v) (ta - tb)"
  then obtain ta tb tc where "dateTime gt (date a) = Some ta" "dateTime gt (date b) = Some tb"
    "dateTime gt (date c) = Some tc" "inDirection (sortDirection v) (ta - tb)"
    "inDirection (sortDirection v) (tb - tc)"
    by auto
  then show "\<exists>ta tb. dateTime gt (date a) = Some ta \<and> dateTime gt (date c) = Some tb \<and>
                     inDirection (sortDirection v) (ta - tb)"
    using inDirection_trans by blast
qed

lemma sortedPayments_no_column:
  "sortColumn v = None \<Longrightarrow> sortedPayments gt lc v = filteredPayments v"
  unfolding sortedPayments_def by (simp add: sortBy_id notAfter_no_column)

lemma handleSort_fields:
  "sortColumn (handleSort v c) = Some c"
  "sortColumn v = Some c \<Longrightarrow> sortDirection (handleSort v c) = (if sortDirection v = Asc then Desc else Asc)"
  "sortColumn v \<noteq> Some c \<Longrightarrow> sortDirection (handleSort v c) = Asc"
  "payments (handleSort v c) = payments v"
  "searchTerm (handleSort v c) = searchTerm v"
  "isLoading (handleSort v c) = isLoading v"
  "toasts (handleSort v c) = toasts v"
  by (simp_all add: handleSort_def)

lemma filteredPayments_loaded_click:
  "filteredPayments (handleSort loadedView c) = [paymentA, paymentB]"
  "filteredPayments (handleSort (handleSort loadedView c) c) = [paymentA, paymentB]"
  by (simp_all add: filteredPayments_def handleSort_def loadedView_def searchMatches_empty)

lemma amount_click_once:
  "filterPaymentsByStatus sampleGetTime codeUnitCompare (handleSort loadedView ''amount'') ''all-payments''
     = [paymentB, paymentA]"
  unfolding filterPaymentsByStatus_def sortedPayments_def filteredPayments_loaded_click
  by (simp add: handleSort_def loadedView_def notAfter_amount inDirection_def paymentA_def paymentB_def)

lemma amount_click_twice:
  "filterPaymentsByStatus sampleGetTime codeUnitCompare
     (handleSort (handleSort loadedView ''amount'') ''amount'') ''all-payments''
     = [paymentA, paymentB]"
  unfolding filterPaymentsByStatus_def sortedPayments_def filteredPayments_loaded_click
  by (simp add: handleSort_def loadedView_def notAfter_amount inDirection_def paymentA_def paymentB_def)

lemma loaded_dates_valid:
  "\<forall>p\<in>set (payments loadedView). dateTime sampleGetTime (date p) \<noteq> None"
  by (simp add: loadedView_def paymentA_def paymentB_def sampleGetTime_def)

lemma sample_timestamps:
  "dateTime sampleGetTime (date paymentA) = Some 1709251200000"
  "dateTime sampleGetTime (date paymentB) = Some 1704067200000"
  "dateTime sampleGetTime (date paymentG) = None"
  by (simp_all add: paymentA_def paymentB_def paymentG_def sampleGetTime_def)

lemma date_click_once:
  "filterPaymentsByStatus sampleGetTime codeUnitCompare (handleSort loadedView ''date'') ''all-payments''
     = [paymentB, paymentA]"
  unfolding filterPaymentsByStatus_def sortedPayments_def filteredPayments_loaded_click
  by (simp add: handleSort_def loadedView_def
      notAfter_date[OF sample_timestamps(1) sample_timestamps(2)] inDirection_def)

lemma garbage_date_click:
  "filterPaymentsByStatus sampleGetTime codeUnitCompare (handleSort garbageView ''date'') ''all-payments''
     = [paymentA, paymentG, paymentB]"
proof -
  have f: "filteredPayments (handleSort garbageView ''date'') = [paymentA, paymentG, paymentB]"
    by (simp add: filteredPayments_def handleSort_def garbageView_def searchMatches_empty)
  have n1: "notAfter (compareFn sampleGetTime codeUnitCompare (Some ''date'') Asc) paymentG paymentB"
    by (simp add: notAfter_def compareFn_def sample_timestamps)
  have n2: "notAfter (compareFn sampleGetTime codeUnitCompare (Some ''date'') Asc) paymentA paymentG"
    by (simp add: notAfter_def compareFn_def sample_timestamps)
  show ?thesis
    unfolding filterPaymentsByStatus_def sortedPayments_def f
    by (simp add: handleSort_def garbageView_def n1 n2)
qed

text \<open>
  Claim C7 as stated (after a click on \<open>date\<close> the rows are ordered by the clock value of
  their dates, for whatever records were fetched) fails.  One of three fetched records has
  the date \<open>garbage\<close>, which is no date, so the comparator gives \<open>NaN\<close> against it; after
  the click on \<open>date\<close>, ascending, the record of March still stands before the record of
  January, although for that pair the comparator gives a positive number.
\<close>

theorem unparsable_date_counterexample:
  "sortColumn (handleSort garbageView ''date'') = Some ''date'' \<and>
   sortDirection (handleSort garbageView ''date'') = Asc \<and>
   filterPaymentsByStatus sampleGetTime codeUnitCompare (handleSort garbageView ''date'') ''all-payments''
     = [paymentA, paymentG, paymentB] \<and>
   dateTime sampleGetTime (date paymentA) = Some 1709251200000 \<and>
   dateTime sampleGetTime (date paymentB) = Some 1704067200000 \<and>
   compareFn sampleGetTime codeUnitCompare (Some ''date'') Asc paymentA paymentB = Some 5184000000 \<and>
   \<not> notAfter (compareFn sampleGetTime codeUnitCompare (Some ''date'') Asc) paymentA paymentB \<and>
   compareFn sampleGetTime codeUnitCompare (Some ''date'') Asc paymentA paymentG = None"
proof -
  have c: "sortColumn (handleSort garbageView ''date'') = Some ''date''"
    and d: "sortDirection (handleSort garbageView ''date'') = Asc"
    by (simp_all add: handleSort_def garbageView_def)
  have k: "compareFn sampleGetTime codeUnitCompare (Some ''date'') Asc paymentA paymentB
      = Some 5184000000"
    by (simp add: compareFn_def sample_timestamps)
  have n: "\<not> notAfter (compareFn sampleGetTime codeUnitCompare (Some ''date'') Asc) paymentA paymentB"
    by (simp add: notAfter_def k)
  have g: "compareFn sampleGetTime codeUnitCompare (Some ''date'') Asc paymentA paymentG = None"
    by (simp add: compareFn_def sample_timestamps)
  from c d garbage_date_click sample_timestamps(1,2) k n g show ?thesis by blast
qed

text \<open>
  Claim C7, amended.  A click on the active column keeps it and reverses the direction; a
  click on another column makes it the active one, ascending; nothing else of the state
  changes and sorting only rearranges the searched list.  After the click the rows of every
  tab are in the order of the clicked column's comparator, in the direction then
  selected: for \<open>amount\<close> by the number; for \<open>buyer\<close>, \<open>seller\<close> and \<open>status\<close> by the
  platform's comparison of the texts (taken to be consistent), a missing buyer or seller
  counting as the empty text; and for \<open>date\<close> by the clock value of the date, a missing
  date counting as \<open>0\<close>, provided that every date present on a fetched record is readable
  as a date.
\<close>

theorem sort_follows_clicked_column:
  "sortColumn (handleSort v c) = Some c \<and>
   (sortColumn v = Some c \<longrightarrow>
      sortDirection (handleSort v c) = (if sortDirection v = Asc then Desc else Asc)) \<and>
   (sortColumn v \<noteq> Some c \<longrightarrow> sortDirection (handleSort v c) = Asc) \<and>
   payments (handleSort v c) = payments v \<and> searchTerm (handleSort v c) = searchTerm v \<and>
   mset (sortedPayments gt lc (handleSort v c)) = mset (filteredPayments v) \<and>
   dateTime gt None = Some 0 \<and> dateTime gt (Some []) = Some 0 \<and>
   (c = ''date'' \<and> (\<forall>p\<in>set (payments v). dateTime gt (date p) \<noteq> None) \<longrightarrow>
      sorted_wrt
        (\<lambda>a b. \<exists>ta tb. dateTime gt (date a) = Some ta \<and> dateTime gt (date b) = Some tb \<and>
                  inDirection (sortDirection (handleSort v c)) (ta - tb))
        (filterPaymentsByStatus gt lc (handleSort v c) tab)) \<and>
   (c = ''amount'' \<longrightarrow>
      sorted_wrt (\<lambda>a b. inDirection (sortDirection (handleSort v c)) (amount a - amount b))
        (filterPaymentsByStatus gt lc (handleSort v c) tab)) \<and>
   (c = ''buyer'' \<and> consistentComparator lc \<longrightarrow>
      sorted_wrt
        (\<lambda>a b. inDirection (sortDirection (handleSort v c))
                  (lc (orElse (buyer a) []) (orElse (buyer b) [])))
        (filterPaymentsByStatus gt lc (handleSort v c) tab)) \<and>
   (c = ''seller'' \<and> consistentComparator lc \<longrightarrow>
      sorted_wrt
        (\<lambda>a b. inDirection (sortDirection (handleSort v c))
                  (lc (orElse (seller a) []) (orElse (seller b) [])))
        (filterPaymentsByStatus gt lc (handleSort v c) tab)) \<and>
   (c = ''status'' \<and> consistentComparator lc \<longrightarrow>
      sorted_wrt (\<lambda>a b. inDirection (sortDirection (handleSort v c)) (lc (status a) (status b)))
        (filterPaymentsByStatus gt lc (handleSort v c) tab))"
proof -
  let ?w = "handleSort v c"
  have col: "sortColumn ?w = Some c" by (rule handleSort_fields)
  have perm: "mset (sortedPayments gt lc ?w) = mset (filteredPayments v)"
    by (simp add: sortedPayments_def mset_sortBy filteredPayments_def handleSort_fields)
  have d: "sorted_wrt
          (\<lambda>a b. \<exists>ta tb. dateTime gt (date a) = Some ta \<and> dateTime gt (date b) = Some tb \<and>
                    inDirection (sortDirection ?w) (ta - tb))
          (filterPaymentsByStatus gt lc ?w tab)"
    if "c = ''date''" "\<forall>p\<in>set (payments v). dateTime gt (date p) \<noteq> None"
  proof -
    from that(1) col have k: "sortColumn ?w = Some ''date''" by simp
    from that(2) have "\<forall>p\<in>set (payments ?w). dateTime gt (date p) \<noteq> None"
      by (simp add: handleSort_fields)
    with k show ?thesis by (rule shown_sorted_date)
  qed
  have a: "sorted_wrt (\<lambda>a b. inDirection (sortDirection ?w) (amount a - amount b))
          (filterPaymentsByStatus gt lc ?w tab)"
    if "c = ''amount''"
  proof -
    from that col have "sortColumn ?w = Some ''amount''" by simp
    then show ?thesis by (rule shown_sorted_amount)
  qed
  have b: "sorted_wrt
          (\<lambda>a b. inDirection (sortDirection ?w) (lc (orElse (buyer a) []) (orElse (buyer b) [])))
          (filterPaymentsByStatus gt lc ?w tab)"
    if "c = ''buyer''" "consistentComparator lc"
    using col that(1) by (intro shown_sorted_string[OF that(2)]) (simp add: notAfter_buyer)
  have s: "sorted_wrt
          (\<lambda>a b. inDirection (sortDirection ?w) (lc (orElse (seller a) []) (orElse (seller b) [])))
          (filterPaymentsByStatus gt lc ?w tab)"
    if "c = ''seller''" "consistentComparator lc"
    using col that(1) by (intro shown_sorted_string[OF that(2)]) (simp add: notAfter_seller)
  have st: "sorted_wrt
          (\<lambda>a b. inDirection (sortDirection ?w) (lc (status a) (status b)))
          (filterPaymentsByStatus gt lc ?w tab)"
    if "c = ''status''" "consistentComparator lc"
    using col that(1) by (intro shown_sorted_string[OF that(2)]) (simp add: notAfter_status)
  have h1: "sortDirection ?w = (if sortDirection v = Asc then Desc else Asc)"
    if "sortColumn v = Some c"
    using that by (simp add: handleSort_fields)
  have h2: "sortDirection ?w = Asc" if "sortColumn v \<noteq> Some c"
    using that by (simp add: handleSort_fields)
  have h: "payments ?w = payments v" "searchTerm ?w = searchTerm v"
    "dateTime gt None = Some 0" "dateTime gt (Some []) = Some 0"
    by (simp_all add: handleSort_fields)
  show ?thesis
    by (intro conjI impI; (elim conjE)?; (rule col perm h h1 h2 d a b s st; assumption))
qed

theorem sort_follows_clicked_column_witness:
  "consistentComparator codeUnitCompare \<and>
   payments loadedView = [paymentA, paymentB] \<and>
   dateTime sampleGetTime (date paymentA) = Some 1709251200000 \<and>
   dateTime sampleGetTime (date paymentB) = Some 1704067200000 \<and>
   sortColumn (handleSort loadedView ''amount'') = Some ''amount'' \<and>
   sortDirection (handleSort loadedView ''amount'') = Asc \<and>
   filterPaymentsByStatus sampleGetTime codeUnitCompare (handleSort loadedView ''amount'') ''all-payments''
     = [paymentB, paymentA] \<and>
   sorted_wrt (\<lambda>a b. inDirection Asc (amount a - amount b)) [paymentB, paymentA] \<and>
   sortDirection (handleSort (handleSort loadedView ''amount'') ''amount'') = Desc \<and>
   filterPaymentsByStatus sampleGetTime codeUnitCompare
     (handleSort (handleSort loadedView ''amount'') ''amount'') ''all-payments''
     = [paymentA, paymentB] \<and>
   sorted_wrt (\<lambda>a b. inDirection Desc (amount a - amount b)) [paymentA, paymentB] \<and>
   sortDirection (handleSort loadedView ''date'') = Asc \<and>
   filterPaymentsByStatus sampleGetTime codeUnitCompare (handleSort loadedView ''date'') ''all-payments''
     = [paymentB, paymentA] \<and>
   sorted_wrt
     (\<lambda>a b. \<exists>ta tb. dateTime sampleGetTime (date a) = Some ta \<and>
                     dateTime sampleGetTime (date b) = Some tb \<and> inDirection Asc (ta - tb))
     [paymentB, paymentA]"
proof -
  have v1: "\<forall>p\<in>set (payments loadedView). dateTime sampleGetTime (date p) \<noteq> None"
    by (rule loaded_dates_valid)
  have c1: "sortColumn loadedView \<noteq> Some ''amount''" "sortColumn loadedView \<noteq> Some ''date''"
    by (simp_all add: loadedView_def)
  note t1 = sort_follows_clicked_column[of loadedView "''amount''" sampleGetTime codeUnitCompare
      "''all-payments''"]
  note t2 = sort_follows_clicked_column[of "handleSort loadedView ''amount''" "''amount''"
      sampleGetTime codeUnitCompare "''all-payments''"]
  note t3 = sort_follows_clicked_column[of loadedView "''date''" sampleGetTime codeUnitCompare
      "''all-payments''"]
  from t1 c1 have d1: "sortDirection (handleSort loadedView ''amount'') = Asc"
    and k1: "sortColumn (handleSort loadedView ''amount'') = Some ''amount''" by blast+
  from t2 k1 d1 have d2: "sortDirection (handleSort (handleSort loadedView ''amount'') ''amount'') = Desc"
    by simp
  from t3 c1 have d3: "sortDirection (handleSort loadedView ''date'') = Asc" by blast
  from t1 have s1: "sorted_wrt (\<lambda>a b. inDirection Asc (amount a - amount b)) [paymentB, paymentA]"
    unfolding d1 amount_click_once by blast
  from t2 have s2: "sorted_wrt (\<lambda>a b. inDirection Desc (amount a - amount b)) [paymentA, paymentB]"
    unfolding d2 amount_click_twice by blast
  from t3 v1 have s3: "sorted_wrt
     (\<lambda>a b. \<exists>ta tb. dateTime sampleGetTime (date a) = Some ta \<and>
                     dateTime sampleGetTime (date b) = Some tb \<and> inDirection Asc (ta - tb))
     [paymentB, paymentA]"
    unfolding d3 date_click_once by blast
  have p: "payments loadedView = [paymentA, paymentB]" by (simp add: loadedView_def)
  from codeUnitCompare_consistent p sample_timestamps(1,2) k1 d1 d2 d3 s1 s2 s3
    amount_click_once amount_click_twice date_click_once
  show ?thesis by blast
qed

subsection \<open>Tabs\<close>

lemma toLowerCase_tabs:
  "toLowerCase ''completed'' = ''completed''"
  "toLowerCase ''pending'' = ''pending''"
  "toLowerCase ''cancelled'' = ''cancelled''"
  by (simp_all add: toLowerCase_def toLowerChar_def)

lemma completed_tab_loaded:
  "filterPaymentsByStatus sampleGetTime codeUnitCompare loadedView ''completed'' = [paymentB]"
proof -
  have f: "filteredPayments loadedView = [paymentA, paymentB]"
    by (simp add: filteredPayments_def loadedView_def searchMatches_empty)
  have n: "sortColumn loadedView = None" by (simp add: loadedView_def)
  have s: "sortedPayments sampleGetTime codeUnitCompare loadedView = [paymentA, paymentB]"
    unfolding sortedPayments_no_column[OF n] by (rule f)
  show ?thesis
    by (simp add: filterPaymentsByStatus_def s paymentA_def paymentB_def toLowerCase_def
        toLowerChar_def char_of_def bit_0)
qed

text \<open>
  Claim C8 (tabs and their counts).  The tab \<open>all-payments\<close> shows the searched and sorted
  list, that is every record that passes the search; any other tab shows, of that searched
  and sorted list, exactly the records whose status equals the tab name up to case.  The
  four counts are taken over the fetched list: its length, and the numbers of its records
  whose status is \<open>completed\<close>, \<open>pending\<close> and \<open>cancelled\<close> up to case; the search
  term does not enter them.
\<close>

theorem status_tabs_and_counts:
  "filterPaymentsByStatus gt lc v ''all-payments'' =
     sortBy (compareFn gt lc (sortColumn v) (sortDirection v))
       (filter (searchMatches (searchTerm v)) (payments v)) \<and>
   mset (filterPaymentsByStatus gt lc v ''all-payments'') =
     filter_mset (searchMatches (searchTerm v)) (mset (payments v)) \<and>
   (tab \<noteq> ''all-payments'' \<longrightarrow>
      filterPaymentsByStatus gt lc v tab =
        filter (\<lambda>p. toLowerCase (status p) = toLowerCase tab)
          (sortBy (compareFn gt lc (sortColumn v) (sortDirection v))
             (filter (searchMatches (searchTerm v)) (payments v))) \<and>
      mset (filterPaymentsByStatus gt lc v tab) =
        filter_mset (\<lambda>p. toLowerCase (status p) = toLowerCase tab)
          (filter_mset (searchMatches (searchTerm v)) (mset (payments v)))) \<and>
   allPaymentsCount v = length (payments v) \<and>
   completedCount v =
     length (filter (\<lambda>p. toLowerCase (status p) = toLowerCase ''completed'') (payments v)) \<and>
   pendingCount v =
     length (filter (\<lambda>p. toLowerCase (status p) = toLowerCase ''pending'') (payments v)) \<and>
   cancelledCount v =
     length (filter (\<lambda>p. toLowerCase (status p) = toLowerCase ''cancelled'') (payments v)) \<and>
   allPaymentsCount (v\<lparr>searchTerm := t\<rparr>) = allPaymentsCount v \<and>
   completedCount (v\<lparr>searchTerm := t\<rparr>) = completedCount v \<and>
   pendingCount (v\<lparr>searchTerm := t\<rparr>) = pendingCount v \<and>
   cancelledCount (v\<lparr>searchTerm := t\<rparr>) = cancelledCount v"
  by (simp add: filterPaymentsByStatus_def sortedPayments_def filteredPayments_def mset_sortBy
      allPaymentsCount_def completedCount_def pendingCount_def cancelledCount_def toLowerCase_tabs)

theorem status_tabs_and_counts_witness:
  "''completed'' \<noteq> ''all-payments'' \<and>
   filterPaymentsByStatus sampleGetTime codeUnitCompare loadedView ''completed'' = [paymentB] \<and>
   filter (\<lambda>p. toLowerCase (status p) = toLowerCase ''completed'')
     (sortBy (compareFn sampleGetTime codeUnitCompare (sortColumn loadedView) (sortDirection loadedView))
        (filter (searchMatches (searchTerm loadedView)) (payments loadedView))) = [paymentB] \<and>
   allPaymentsCount loadedView = 2 \<and>
   completedCount (loadedView\<lparr>searchTerm := ''alice''\<rparr>) = completedCount loadedView"
proof -
  have n: "''completed'' \<noteq> ''all-payments''" by simp
  note t = status_tabs_and_counts[of sampleGetTime codeUnitCompare loadedView "''completed''" "''alice''"]
  from t n have e: "filterPaymentsByStatus sampleGetTime codeUnitCompare loadedView ''completed'' =
        filter (\<lambda>p. toLowerCase (status p) = toLowerCase ''completed'')
          (sortBy (compareFn sampleGetTime codeUnitCompare (sortColumn loadedView) (sortDirection loadedView))
             (filter (searchMatches (searchTerm loadedView)) (payments loadedView)))"
    by blast
  from t have c: "completedCount (loadedView\<lparr>searchTerm := ''alice''\<rparr>) = completedCount loadedView"
    by blast
  from t have a: "allPaymentsCount loadedView = 2" by (simp add: loadedView_def)
  from n e c a completed_tab_loaded show ?thesis by simp
qed

subsection \<open>Cells\<close>

lemma details_bank:
  "bankName d = Some b \<Longrightarrow> b \<noteq> [] \<Longrightarrow> accountNumber d = Some a \<Longrightarrow> a \<noteq> [] \<Longrightarrow>
   formatPaymentDetails (Some d) = b @ '' - '' @ a"
  by simp

lemma details_stripe:
  "\<not> (truthy (bankName d) \<and> truthy (accountNumber d)) \<Longrightarrow> truthy (stripePaymentIntentId d) \<Longrightarrow>
   formatPaymentDetails (Some d) = ''Stripe Payment''"
  by auto

lemma details_na:
  "\<not> (truthy (bankName d) \<and> truthy (accountNumber d)) \<Longrightarrow> \<not> truthy (stripePaymentIntentId d) \<Longrightarrow>
   formatPaymentDetails (Some d) = ''N/A''"
  by auto

lemma formatDate_missing: "\<not> truthy dt \<Longrightarrow> formatDate fmt dt = ''N/A''"
  by (cases dt) simp_all

lemma formatDate_present: "truthy dt \<Longrightarrow> \<exists>s. dt = Some s \<and> formatDate fmt dt = fmt s"
  by (cases dt) simp_all

lemma formatDate_na_iff:
  assumes "\<forall>s. fmt s \<noteq> ''N/A''"
  shows "(formatDate fmt dt = ''N/A'') = (\<not> truthy dt)"
proof (cases "truthy dt")
  case True
  from formatDate_present[OF True] obtain s where "formatDate fmt dt = fmt s" by blast
  with assms True show ?thesis by simp
next
  case False
  then show ?thesis by (simp add: formatDate_missing)
qed

text \<open>
  Claim C9 as stated (\<open>Stripe Payment\<close> only when nothing but the payment-intent
  identifier is present, \<open>N/A\<close> otherwise) fails: for details with a bank name and a
  payment-intent identifier and no account number the cell is \<open>Stripe Payment\<close>.
\<close>

theorem details_bank_and_intent_counterexample:
  "bankName bankAndIntent = Some ''HBL'' \<and> accountNumber bankAndIntent = None \<and>
   stripePaymentIntentId bankAndIntent = Some ''pi_123'' \<and>
   formatPaymentDetails (Some bankAndIntent) = ''Stripe Payment'' \<and>
   formatPaymentDetails (Some bankAndIntent) \<noteq> ''N/A''"
  by (simp add: bankAndIntent_def)

text \<open>
  Claim C9, amended.  The payment-details cell is \<open>{bank} - {account}\<close> when bank name and
  account number are both present and non-empty; otherwise it is \<open>Stripe Payment\<close> when
  a non-empty payment-intent identifier is present, and \<open>N/A\<close> when there is none,
  as well as when the details are \<open>null\<close>.  The date cell is \<open>N/A\<close> when the date is
  missing or empty, and only then, the date formatter never producing that text.
\<close>

theorem details_and_date_cells:
  "(bankName d = Some b \<and> b \<noteq> [] \<and> accountNumber d = Some a \<and> a \<noteq> [] \<longrightarrow>
      formatPaymentDetails (Some d) = b @ '' - '' @ a) \<and>
   (\<not> (truthy (bankName d) \<and> truthy (accountNumber d)) \<and> truthy (stripePaymentIntentId d) \<longrightarrow>
      formatPaymentDetails (Some d) = ''Stripe Payment'') \<and>
   (\<not> (truthy (bankName d) \<and> truthy (accountNumber d)) \<and> \<not> truthy (stripePaymentIntentId d) \<longrightarrow>
      formatPaymentDetails (Some d) = ''N/A'') \<and>
   formatPaymentDetails None = ''N/A'' \<and>
   (\<not> truthy dt \<longrightarrow> formatDate fmt dt = ''N/A'') \<and>
   ((\<forall>s. fmt s \<noteq> ''N/A'') \<longrightarrow> (formatDate fmt dt = ''N/A'') = (\<not> truthy dt))"
  using details_bank[of d b a] details_stripe[of d] details_na[of d]
    formatDate_missing[of dt fmt] formatDate_na_iff[of fmt dt]
  by (intro conjI impI) (blast, blast, blast, simp, blast, blast)

theorem details_and_date_cells_witness:
  "formatPaymentDetails
     (Some \<lparr>bankName = Some ''HBL'', accountNumber = Some ''0012'', stripePaymentIntentId = None\<rparr>)
     = ''HBL - 0012'' \<and>
   formatPaymentDetails
     (Some \<lparr>bankName = None, accountNumber = None, stripePaymentIntentId = Some ''pi_123''\<rparr>)
     = ''Stripe Payment'' \<and>
   formatPaymentDetails (Some bankAndIntent) = ''Stripe Payment'' \<and>
   formatPaymentDetails
     (Some \<lparr>bankName = Some ''HBL'', accountNumber = None, stripePaymentIntentId = None\<rparr>) = ''N/A'' \<and>
   (\<forall>s. sampleDateString s \<noteq> ''N/A'') \<and>
   \<not> truthy None \<and> formatDate sampleDateString None = ''N/A'' \<and>
   truthy (Some ''2024-03-01T00:00:00.000Z'') \<and>
   formatDate sampleDateString (Some ''2024-03-01T00:00:00.000Z'') \<noteq> ''N/A''"
proof -
  have f: "\<forall>s. sampleDateString s \<noteq> ''N/A''" by (simp add: sampleDateString_def)
  have 1: "formatPaymentDetails
     (Some \<lparr>bankName = Some ''HBL'', accountNumber = Some ''0012'', stripePaymentIntentId = None\<rparr>)
     = ''HBL - 0012''"
    using details_and_date_cells
      [of "\<lparr>bankName = Some ''HBL'', accountNumber = Some ''0012'', stripePaymentIntentId = None\<rparr>"
          "''HBL''" "''0012''" None sampleDateString]
    by simp
  have 2: "formatPaymentDetails
     (Some \<lparr>bankName = None, accountNumber = None, stripePaymentIntentId = Some ''pi_123''\<rparr>)
     = ''Stripe Payment''"
    using details_and_date_cells
      [of "\<lparr>bankName = None, accountNumber = None, stripePaymentIntentId = Some ''pi_123''\<rparr>"
          "[]" "[]" None sampleDateString]
    by simp
  have 3: "formatPaymentDetails (Some bankAndIntent) = ''Stripe Payment''"
    using details_and_date_cells[of bankAndIntent "[]" "[]" None sampleDateString]
    by (simp add: bankAndIntent_def)
  have 4: "formatPaymentDetails
     (Some \<lparr>bankName = Some ''HBL'', accountNumber = None, stripePaymentIntentId = None\<rparr>) = ''N/A''"
    using details_and_date_cells
      [of "\<lparr>bankName = Some ''HBL'', accountNumber = None, stripePaymentIntentId = None\<rparr>"
          "[]" "[]" None sampleDateString]
    by simp
  have 5: "formatDate sampleDateString None = ''N/A''"
    using details_and_date_cells[of bankAndIntent "[]" "[]" None sampleDateString] by simp
  have 6: "formatDate sampleDateString (Some ''2024-03-01T00:00:00.000Z'') \<noteq> ''N/A''"
    using details_and_date_cells
      [of bankAndIntent "[]" "[]" "Some ''2024-03-01T00:00:00.000Z''" sampleDateString] f
    by simp
  from f 1 2 3 4 5 6 show ?thesis by simp
qed

end
